theory Spec2Isabelle
  imports Complex_Main "HOL-Library.Sublist" "HOL-Library.List_Lexorder" "HOL-Library.Char_ord"
begin

section \<open>Strings\<close>

text \<open>
  Python strings are modelled as \<open>string\<close> (lists of 8-bit characters). \<open>str.lower\<close>
  is modelled on the ASCII letters; every other character is left as it is, also the few
  letters outside ASCII that \<open>str.lower\<close> maps to ASCII letters. The keyword tables of
  the program are ASCII, lower case.
\<close>

definition lower_char :: "char \<Rightarrow> char" where
  "lower_char c =
     (let n = (of_char c :: nat) in if 65 \<le> n \<and> n \<le> 90 then char_of (n + 32) else c)"

definition lower :: "string \<Rightarrow> string" where
  "lower s = map lower_char s"

text \<open>\<open>starts_with kw s\<close>: \<open>s.startswith(kw)\<close>.\<close>

fun starts_with :: "string \<Rightarrow> string \<Rightarrow> bool" where
  "starts_with [] s = True"
| "starts_with (k # ks) [] = False"
| "starts_with (k # ks) (c # cs) = (k = c \<and> starts_with ks cs)"

text \<open>\<open>py_in kw s\<close>: the substring test \<open>kw in s\<close>.\<close>

fun py_in :: "string \<Rightarrow> string \<Rightarrow> bool" where
  "py_in kw [] = (kw = [])"
| "py_in kw (c # cs) = (starts_with kw (c # cs) \<or> py_in kw cs)"

text \<open>\<open>any_in kws s\<close>: \<open>any(kw in s for kw in kws)\<close>.\<close>

definition any_in :: "string list \<Rightarrow> string \<Rightarrow> bool" where
  "any_in kws s = list_ex (\<lambda>kw. py_in kw s) kws"

text \<open>\<open>count_in kws s\<close>: \<open>sum(1 for kw in kws if kw in s)\<close>.\<close>

definition count_in :: "string list \<Rightarrow> string \<Rightarrow> nat" where
  "count_in kws s = length (filter (\<lambda>kw. py_in kw s) kws)"

text \<open>\<open>join sep xs\<close>: \<open>sep.join(xs)\<close>.\<close>

fun join :: "string \<Rightarrow> string list \<Rightarrow> string" where
  "join sep [] = []"
| "join sep [x] = x"
| "join sep (x # y # ys) = x @ sep @ join sep (y # ys)"

text \<open>\<open>str_nat n\<close>: the decimal text of a non-negative integer, as an f-string prints it.\<close>

fun str_nat :: "nat \<Rightarrow> string" where
  "str_nat n =
     (if n < 10 then [char_of (48 + n)]
      else str_nat (n div 10) @ [char_of (48 + n mod 10)])"

text \<open>\<open>replace_Z s\<close>: \<open>s.replace('Z', '+00:00')\<close>.\<close>

definition replace_Z :: "string \<Rightarrow> string" where
  "replace_Z s = concat (map (\<lambda>c. if c = CHR ''Z'' then ''+00:00'' else [c]) s)"

section \<open>Articles\<close>

text \<open>
  An article is the JSON object written by \<open>fetch_articles\<close>. A field is \<open>None\<close> when
  the key is absent from the dictionary. The text fields are strings when present, as
  \<open>fetch_articles\<close> writes them.
\<close>

record article =
  title :: "string option"
  summary :: "string option"
  description :: "string option"
  link :: "string option"
  url :: "string option"
  published :: "string option"
  date_verified :: "bool option"
  source :: "string option"
  source_url :: "string option"
  author :: "string option"
  tags :: "string list option"

text \<open>\<open>dict_get v d\<close>: \<open>article.get(key, d)\<close>, where \<open>v\<close> is the field of the key.\<close>

definition dict_get :: "'a option \<Rightarrow> 'a \<Rightarrow> 'a" where
  "dict_get v d = (case v of None \<Rightarrow> d | Some x \<Rightarrow> x)"

section \<open>Numbers\<close>

text \<open>
  A Python number is an \<open>int\<close> or a \<open>float\<close>. \<open>PFloat r\<close> stands for the float that
  the interpreter computes; \<open>r\<close> is its value with the literal \<open>0.3\<close> read as \<open>3/10\<close>
  and without the rounding of binary floating point.
\<close>

datatype pynum = PInt int | PFloat rat

fun num_val :: "pynum \<Rightarrow> rat" where
  "num_val (PInt i) = of_int i"
| "num_val (PFloat r) = r"

fun is_int :: "pynum \<Rightarrow> bool" where
  "is_int (PInt i) = True"
| "is_int (PFloat r) = False"

text \<open>\<open>py_min a b\<close>: \<open>min(a, b)\<close>, which returns \<open>a\<close> unless \<open>b < a\<close>.\<close>

definition py_min :: "pynum \<Rightarrow> pynum \<Rightarrow> pynum" where
  "py_min a b = (if num_val b < num_val a then b else a)"

section \<open>analyze\_articles.py: scoring and categorization\<close>

definition production_keywords_aa :: "string list" where
  "production_keywords_aa =
     [''production'', ''deployment'', ''case study'', ''real-world'', ''enterprise'',
      ''customer'', ''implementation'', ''using'', ''how to'', ''practical'',
      ''langsmith'', ''langgraph'', ''servicenow'', ''company'']"

definition agent_keywords_aa :: "string list" where
  "agent_keywords_aa =
     [''agent'', ''agentic'', ''autonomous'', ''tool use'', ''tool calling'',
      ''mcp'', ''model context protocol'', ''multi-agent'', ''orchestration'',
      ''reasoning'', ''planning'', ''workflow'']"

definition framework_keywords_aa :: "string list" where
  "framework_keywords_aa =
     [''framework'', ''library'', ''sdk'', ''api'', ''tool'', ''platform'',
      ''langchain'', ''autogen'', ''crewai'', ''anthropic'', ''openai'']"

definition content_aa :: "article \<Rightarrow> string" where
  "content_aa a =
     lower (dict_get (title a) []) @ '' '' @
     lower (dict_get (summary a) (dict_get (description a) []))"

definition link_aa :: "article \<Rightarrow> string" where
  "link_aa a = dict_get (link a) (dict_get (url a) [])"

definition is_arxiv_aa :: "article \<Rightarrow> bool" where
  "is_arxiv_aa a = py_in ''arxiv.org'' (link_aa a)"

definition score_article_aa :: "article \<Rightarrow> pynum \<times> string" where
  "score_article_aa a =
     (let content = content_aa a;
          is_arxiv = is_arxiv_aa a;
          agent_matches = count_in agent_keywords_aa content
      in if agent_matches = 0 then (PInt 0, ''Not relevant to AI agents'')
         else
           let score1 = min (int agent_matches * 15) 40;
               reasons1 = [''agent keywords ('' @ str_nat agent_matches @ '')''];
               production_matches = count_in production_keywords_aa content;
               score2 = (if production_matches > 0
                         then score1 + min (int production_matches * 20) 50 else score1);
               reasons2 = (if production_matches > 0
                           then reasons1 @ [''production focus ('' @ str_nat production_matches @ '')'']
                           else reasons1);
               framework_matches = count_in framework_keywords_aa content;
               score3 = (if framework_matches > 0
                         then score2 + min (int framework_matches * 10) 30 else score2);
               reasons3 = (if framework_matches > 0
                           then reasons2 @ [''framework/tool ('' @ str_nat framework_matches @ '')'']
                           else reasons2);
               score4 = (if is_arxiv \<and> production_matches = 0
                         then py_min (PFloat (of_int score3 * (3 / 10))) (PInt 40)
                         else PInt score3);
               reasons4 = (if is_arxiv
                           then (if production_matches = 0
                                 then reasons3 @ [''arXiv penalty (research paper)'']
                                 else reasons3 @ [''arXiv with production relevance''])
                           else reasons3)
           in (py_min score4 (PInt 100), join ''; '' reasons4))"

definition production_indicators_aa :: "string list" where
  "production_indicators_aa =
     [''production'', ''deployment'', ''case study'', ''customer'', ''enterprise'',
      ''real-world'', ''implementation'']"

definition framework_indicators_aa :: "string list" where
  "framework_indicators_aa =
     [''framework'', ''library'', ''sdk'', ''api'', ''tool'', ''release'', ''version'']"

definition resource_indicators_aa :: "string list" where
  "resource_indicators_aa =
     [''guide'', ''tutorial'', ''how to'', ''documentation'', ''learning'']"

definition analysis_indicators_aa :: "string list" where
  "analysis_indicators_aa =
     [''trend'', ''analysis'', ''survey'', ''benchmark'', ''comparison'', ''review'']"

definition categorize_article_aa :: "article \<Rightarrow> pynum \<Rightarrow> string" where
  "categorize_article_aa a score =
     (let content = content_aa a;
          is_arxiv = is_arxiv_aa a
      in if any_in production_indicators_aa content then ''Production Use Cases''
         else if any_in framework_indicators_aa content \<and> \<not> is_arxiv then ''Frameworks & Tools''
         else if any_in resource_indicators_aa content then ''Developer Resources''
         else if any_in analysis_indicators_aa content then ''Trends & Analysis''
         else ''Research & Breakthroughs'')"

section \<open>analyze\_today.py: scoring and categorization\<close>

definition agentic_keywords_at :: "string list" where
  "agentic_keywords_at =
     [''agent'', ''agentic'', ''autonomous'', ''multi-agent'', ''tool use'',
      ''function calling'', ''mcp'', ''model context protocol'',
      ''reasoning'', ''planning'', ''workflow'', ''orchestration'',
      ''tool calling'', ''langchain'', ''langgraph'', ''crewai'']"

definition production_keywords_at :: "string list" where
  "production_keywords_at =
     [''production'', ''deployment'', ''real-world'', ''implementation'',
      ''case study'', ''benchmark'', ''framework'', ''sdk'', ''api'',
      ''system'', ''platform'', ''enterprise'', ''scale'']"

definition ai_keywords_at :: "string list" where
  "ai_keywords_at = [''llm'', ''large language'', ''ai'', ''gpt'', ''claude'', ''gemini'']"

definition dev_keywords_at :: "string list" where
  "dev_keywords_at = [''developer'', ''code'', ''programming'', ''engineering'']"

definition theory_keywords_at :: "string list" where
  "theory_keywords_at = [''theoretical'', ''mathematical proof'', ''convergence'']"

text \<open>The text \<open>combined\<close> of \<open>analyze_today.py\<close> and of \<open>filter_and_generate.py\<close>.\<close>

definition combined_of :: "article \<Rightarrow> string" where
  "combined_of a =
     lower (dict_get (title a) []) @ '' '' @ lower (dict_get (description a) [])"

definition score_article_at :: "article \<Rightarrow> int" where
  "score_article_at a =
     (let combined = combined_of a;
          url = lower (dict_get (url a) []);
          matches = count_in agentic_keywords_at combined;
          score1 = 0 + min 40 (int matches * 15);
          score2 = (if any_in production_keywords_at combined then score1 + 25 else score1);
          score3 = (if any_in ai_keywords_at combined then score2 + 20 else score2);
          score4 = (if any_in dev_keywords_at combined then score3 + 10 else score3);
          score5 = (if \<not> py_in ''arxiv.org'' url then score4 + 10 else score4);
          score6 = (if py_in ''arxiv.org'' url
                    then (if any_in theory_keywords_at combined then score5 - 15 else score5)
                    else score5)
      in max 0 (min 100 score6))"

text \<open>The four lists written in \<open>categorize_article\<close>, in the order of its tests.\<close>

definition production_terms_at :: "string list" where
  "production_terms_at = [''production'', ''deployment'', ''real-world'', ''case study'']"

definition framework_terms_at :: "string list" where
  "framework_terms_at = [''framework'', ''sdk'', ''tool'', ''library'', ''api'']"

definition resource_terms_at :: "string list" where
  "resource_terms_at = [''tutorial'', ''guide'', ''how to'', ''example'']"

definition analysis_terms_at :: "string list" where
  "analysis_terms_at = [''trend'', ''analysis'', ''survey'', ''benchmark'']"

definition categorize_article_at :: "article \<Rightarrow> string" where
  "categorize_article_at a =
     (let combined = combined_of a
      in if any_in production_terms_at combined then ''Production Use Cases''
         else if any_in framework_terms_at combined then ''Frameworks & Tools''
         else if any_in resource_terms_at combined then ''Developer Resources''
         else if any_in analysis_terms_at combined then ''Trends & Analysis''
         else ''Research & Breakthroughs'')"

section \<open>filter\_and\_generate.py: scoring and categorization\<close>

definition high_value_fg :: "string list" where
  "high_value_fg =
     [''agent'', ''agentic'', ''autonomous'', ''multi-agent'', ''tool use'',
      ''function calling'', ''mcp'', ''model context protocol'',
      ''reasoning'', ''planning'', ''workflow'', ''orchestration'']"

definition production_keywords_fg :: "string list" where
  "production_keywords_fg =
     [''production'', ''deployment'', ''real-world'', ''implementation'',
      ''case study'', ''benchmark'', ''framework'', ''sdk'', ''api'',
      ''tool'', ''application'', ''system'', ''platform'']"

definition ai_keywords_fg :: "string list" where
  "ai_keywords_fg =
     [''llm'', ''large language model'', ''gpt'', ''claude'', ''gemini'',
      ''ai'', ''artificial intelligence'', ''neural'', ''transformer'']"

definition dev_keywords_fg :: "string list" where
  "dev_keywords_fg =
     [''developer'', ''coding'', ''programming'', ''software'',
      ''engineering'', ''code'', ''github'']"

definition theory_only_fg :: "string list" where
  "theory_only_fg =
     [''theoretical'', ''mathematical proof'', ''convergence analysis'',
      ''formal verification'', ''complexity bounds'']"

definition breakthrough_keywords_fg :: "string list" where
  "breakthrough_keywords_fg =
     [''breakthrough'', ''novel'', ''first'', ''new benchmark'',
      ''state-of-the-art'', ''sota'', ''outperforms'']"

text \<open>
  Each \<open>for keyword in ...: if keyword in combined: score += n; break\<close> adds \<open>n\<close> once
  when some keyword of the table occurs.
\<close>

definition score_article_fg :: "article \<Rightarrow> int" where
  "score_article_fg a =
     (let combined = combined_of a;
          url = lower (dict_get (url a) []);
          score1 = (if any_in high_value_fg combined then 0 + 20 else 0);
          score2 = (if any_in production_keywords_fg combined then score1 + 15 else score1);
          score3 = (if any_in ai_keywords_fg combined then score2 + 20 else score2);
          score4 = (if any_in dev_keywords_fg combined then score3 + 10 else score3);
          score5 = (if \<not> py_in ''arxiv.org'' url then score4 + 10 else score4);
          score6 = (if py_in ''arxiv.org'' url
                    then (if any_in theory_only_fg combined then score5 - 20 else score5)
                    else score5);
          score7 = (if py_in ''arxiv.org'' url
                    then (if any_in breakthrough_keywords_fg combined then score6 + 15 else score6)
                    else score6)
      in max 0 (min 100 score7))"

text \<open>The four lists written in \<open>categorize_article\<close>, in the order of its tests.\<close>

definition production_terms_fg :: "string list" where
  "production_terms_fg =
     [''production'', ''deployment'', ''real-world'', ''case study'', ''implementation'']"

definition framework_terms_fg :: "string list" where
  "framework_terms_fg =
     [''framework'', ''sdk'', ''tool'', ''library'', ''api'', ''platform'']"

definition resource_terms_fg :: "string list" where
  "resource_terms_fg =
     [''tutorial'', ''guide'', ''how to'', ''documentation'', ''example'']"

definition analysis_terms_fg :: "string list" where
  "analysis_terms_fg =
     [''trend'', ''analysis'', ''survey'', ''benchmark'', ''evaluation'']"

text \<open>The function reads \<open>url\<close> and does not use it.\<close>

definition categorize_article_fg :: "article \<Rightarrow> string" where
  "categorize_article_fg a =
     (let combined = combined_of a;
          url = lower (dict_get (url a) [])
      in if any_in production_terms_fg combined then ''Production Use Cases''
         else if any_in framework_terms_fg combined then ''Frameworks & Tools''
         else if any_in resource_terms_fg combined then ''Developer Resources''
         else if any_in analysis_terms_fg combined then ''Trends & Analysis''
         else ''Research & Breakthroughs'')"

section \<open>Sorting\<close>

text \<open>
  \<open>xs.sort(key=f, reverse=True)\<close>: the list is reversed, sorted by a stable ascending
  sort on the key, and reversed again.
\<close>

definition sort_reverse :: "('a \<Rightarrow> 'k::linorder) \<Rightarrow> 'a list \<Rightarrow> 'a list" where
  "sort_reverse f xs = rev (sort_key f (rev xs))"

section \<open>Dates\<close>

text \<open>
  A \<open>datetime\<close> is a number of microseconds since the epoch, naive or timezone-aware.
  \<open>timedelta(hours=h)\<close> raises \<open>OverflowError\<close> when its number of days exceeds
  999999999 in magnitude, and so does a subtraction whose result leaves the years 1 to 9999.
\<close>

datatype pydatetime = Naive int | Aware int

datatype error = OverflowError | SystemExit int | JSONDecodeError | AttributeError | OSError

definition timedelta_hours :: "int \<Rightarrow> error + int" where
  "timedelta_hours h =
     (if \<bar>h div 24\<bar> > 999999999 then Inl OverflowError else Inr (h * 3600000000))"

definition datetime_sub :: "int \<Rightarrow> int \<Rightarrow> error + int" where
  "datetime_sub t d =
     (if t - d < - 62135596800000000 \<or> 253402300799999999 < t - d
      then Inl OverflowError else Inr (t - d))"

text \<open>\<open>cutoff_time now hours\<close>: \<open>datetime.now(timezone.utc) - timedelta(hours=hours)\<close>.\<close>

definition cutoff_time :: "int \<Rightarrow> int \<Rightarrow> error + int" where
  "cutoff_time now hours =
     (case timedelta_hours hours of Inl e \<Rightarrow> Inl e | Inr d \<Rightarrow> datetime_sub now d)"

section \<open>analyze\_articles.py: the pipeline\<close>

text \<open>
  \<open>is_recent\<close>. The library function \<open>datetime.fromisoformat\<close> is a parameter: \<open>None\<close>
  when it raises \<open>ValueError\<close>. Comparing a naive with an aware \<open>datetime\<close> raises
  \<open>TypeError\<close>. The bare \<open>except\<close> turns every exception into \<open>False\<close>. \<open>now\<close> is
  the reading of the clock.
\<close>

definition is_recent :: "(string \<Rightarrow> pydatetime option) \<Rightarrow> int \<Rightarrow> string \<Rightarrow> int \<Rightarrow> bool" where
  "is_recent fromisoformat now published_str hours =
     (case fromisoformat (replace_Z published_str) of
        None \<Rightarrow> False
      | Some pub_date \<Rightarrow>
          (case cutoff_time now hours of
             Inl e \<Rightarrow> False
           | Inr c \<Rightarrow>
               (case pub_date of Naive t \<Rightarrow> False | Aware t \<Rightarrow> t \<ge> c)))"

record item_aa =
  aa_article :: article
  aa_score :: pynum
  aa_reason :: string
  aa_category :: string

text \<open>The loop of \<open>main\<close> that scores the recent articles and keeps those of score 60 or more.\<close>

fun score_loop_aa :: "article list \<Rightarrow> item_aa list" where
  "score_loop_aa [] = []"
| "score_loop_aa (a # rest) =
     (let (score, reason) = score_article_aa a
      in if num_val score \<ge> 60
         then \<lparr>aa_article = a, aa_score = score, aa_reason = reason,
               aa_category = categorize_article_aa a score\<rparr> # score_loop_aa rest
         else score_loop_aa rest)"

definition arxiv_limit :: nat where
  "arxiv_limit = 3"

text \<open>
  The loop of \<open>main\<close> that applies the arXiv limit. The state is \<open>by_category\<close>,
  \<open>arxiv_count\<close> and \<open>filtered_articles\<close>.
\<close>

fun limit_loop_aa ::
  "item_aa list \<Rightarrow> (string \<rightharpoonup> item_aa list) \<Rightarrow> nat \<Rightarrow> item_aa list \<Rightarrow>
   item_aa list \<times> (string \<rightharpoonup> item_aa list)" where
  "limit_loop_aa [] by_category arxiv_count filtered_articles =
     (filtered_articles, by_category)"
| "limit_loop_aa (item # rest) by_category arxiv_count filtered_articles =
     (if is_arxiv_aa (aa_article item) \<and> arxiv_count \<ge> arxiv_limit
      then limit_loop_aa rest by_category arxiv_count filtered_articles
      else limit_loop_aa rest
             (by_category(aa_category item \<mapsto>
                dict_get (by_category (aa_category item)) [] @ [item]))
             (if is_arxiv_aa (aa_article item) then arxiv_count + 1 else arxiv_count)
             (filtered_articles @ [item]))"

text \<open>The list \<open>category_order\<close> of \<open>main\<close>: the five categories.\<close>

definition category_order :: "string list" where
  "category_order =
     [''Production Use Cases'', ''Frameworks & Tools'', ''Developer Resources'',
      ''Trends & Analysis'', ''Research & Breakthroughs'']"

text \<open>\<open>main\<close>: the value stored under \<open>'articles'\<close> in the output.\<close>

definition main_aa :: "(string \<Rightarrow> pydatetime option) \<Rightarrow> int \<Rightarrow> article list \<Rightarrow> item_aa list" where
  "main_aa fromisoformat now articles =
     (let recent_articles =
            filter (\<lambda>a. is_recent fromisoformat now (dict_get (published a) []) 48) articles;
          scored_articles = score_loop_aa recent_articles;
          scored_articles = sort_reverse (\<lambda>x. num_val (aa_score x)) scored_articles
      in fst (limit_loop_aa scored_articles Map.empty 0 []))"

section \<open>analyze\_today.py: the pipeline\<close>

record item_at =
  at_article :: article
  at_score :: int
  at_category :: string

fun score_loop_at :: "article list \<Rightarrow> item_at list" where
  "score_loop_at [] = []"
| "score_loop_at (a # rest) =
     (let score = score_article_at a
      in if score \<ge> 60
         then \<lparr>at_article = a, at_score = score,
               at_category = categorize_article_at a\<rparr> # score_loop_at rest
         else score_loop_at rest)"

definition max_arxiv :: nat where
  "max_arxiv = 3"

text \<open>The selection loop of \<open>main\<close>. The state is \<open>selected\<close> and \<open>arxiv_count\<close>.\<close>

fun select_loop_at :: "item_at list \<Rightarrow> item_at list \<Rightarrow> nat \<Rightarrow> item_at list" where
  "select_loop_at [] selected arxiv_count = selected"
| "select_loop_at (item # rest) selected arxiv_count =
     (if length selected \<ge> 12 then selected
      else if py_in ''arxiv.org'' (dict_get (url (at_article item)) [])
      then (if arxiv_count \<ge> max_arxiv
            then select_loop_at rest selected arxiv_count
            else select_loop_at rest (selected @ [item]) (arxiv_count + 1))
      else select_loop_at rest (selected @ [item]) arxiv_count)"

fun category_counts_at :: "item_at list \<Rightarrow> (string \<rightharpoonup> nat) \<Rightarrow> (string \<rightharpoonup> nat)" where
  "category_counts_at [] category_counts = category_counts"
| "category_counts_at (item # rest) category_counts =
     category_counts_at rest
       (category_counts(at_category item \<mapsto>
          dict_get (category_counts (at_category item)) 0 + 1))"

definition main_at :: "article list \<Rightarrow> item_at list" where
  "main_at articles =
     (let scored = score_loop_at articles;
          scored = sort_reverse at_score scored
      in select_loop_at scored [] 0)"

section \<open>filter\_and\_generate.py: the pipeline\<close>

text \<open>
  \<open>main\<close> stores the score and the category in the article itself, under the keys
  \<open>relevance_score\<close> and \<open>category\<close>; an \<open>item_fg\<close> is the article with these two keys.
\<close>

record item_fg =
  fg_article :: article
  relevance_score :: int
  category :: string

fun score_loop_fg :: "article list \<Rightarrow> item_fg list" where
  "score_loop_fg [] = []"
| "score_loop_fg (a # rest) =
     (let score = score_article_fg a
      in if score \<ge> 60
         then \<lparr>fg_article = a, relevance_score = score,
               category = categorize_article_fg a\<rparr> # score_loop_fg rest
         else score_loop_fg rest)"

text \<open>
  The selection loop of \<open>main\<close>. The state is \<open>category_counts\<close>, \<open>selected_articles\<close>
  and \<open>arxiv_count\<close>.
\<close>

fun select_loop_fg ::
  "item_fg list \<Rightarrow> (string \<rightharpoonup> nat) \<Rightarrow> item_fg list \<Rightarrow> nat \<Rightarrow>
   item_fg list \<times> (string \<rightharpoonup> nat)" where
  "select_loop_fg [] category_counts selected_articles arxiv_count =
     (selected_articles, category_counts)"
| "select_loop_fg (item # rest) category_counts selected_articles arxiv_count =
     (if length selected_articles \<ge> 15 then (selected_articles, category_counts)
      else if py_in ''arxiv.org'' (dict_get (url (fg_article item)) []) \<and> arxiv_count \<ge> max_arxiv
      then select_loop_fg rest category_counts selected_articles arxiv_count
      else select_loop_fg rest
             (category_counts(category item \<mapsto>
                dict_get (category_counts (category item)) 0 + 1))
             (selected_articles @ [item])
             (if py_in ''arxiv.org'' (dict_get (url (fg_article item)) [])
              then arxiv_count + 1 else arxiv_count))"

definition main_fg :: "article list \<Rightarrow> item_fg list" where
  "main_fg articles =
     (let scored_articles = score_loop_fg articles;
          scored_articles = sort_reverse relevance_score scored_articles
      in fst (select_loop_fg scored_articles Map.empty [] 0))"

section \<open>collect\_articles.py\<close>

text \<open>
  A feed entry, as \<open>feedparser\<close> returns it. A field is \<open>None\<close> when the key is absent;
  a \<open>_parsed\<close> field is also \<open>None\<close> when its value is \<open>None\<close>. A \<open>struct_time\<close> is the
  list of its nine numbers.
\<close>

type_synonym struct_time = "int list"

record entry =
  e_title :: "string option"
  e_link :: "string option"
  e_summary :: "string option"
  e_description :: "string option"
  e_author :: "string option"
  e_tags :: "string list option"
  e_published :: "string option"
  e_published_parsed :: "struct_time option"
  e_updated :: "string option"
  e_updated_parsed :: "struct_time option"
  e_created :: "string option"
  e_created_parsed :: "struct_time option"

text \<open>A parsed feed: the title of \<open>feed.feed\<close>, if any, and \<open>feed.entries\<close>.\<close>

record feed =
  feed_title :: "string option"
  entries :: "entry list"

text \<open>
  The library functions that the collector calls are parameters:
  \<^item> \<open>isoformat t\<close>: \<open>t.isoformat()\<close>;
  \<^item> \<open>fromtimestamp_mktime st\<close>: \<open>datetime.fromtimestamp(time.mktime(st), tz=timezone.utc)\<close>,
    \<open>None\<close> when it raises;
  \<^item> \<open>date_parser_parse s\<close>: \<open>date_parser.parse(s)\<close>, \<open>None\<close> when it raises;
  \<^item> \<open>feedparser_parse u\<close>: \<open>feedparser.parse(u)\<close>;
  \<^item> \<open>output_writable\<close>: whether the directory of the output can be made and the output
    file written; if not, \<open>mkdir\<close> or \<open>open\<close> raises an \<open>OSError\<close>.
\<close>

record env =
  isoformat :: "int \<Rightarrow> string"
  fromtimestamp_mktime :: "struct_time \<Rightarrow> int option"
  date_parser_parse :: "string \<Rightarrow> pydatetime option"
  feedparser_parse :: "string \<Rightarrow> feed"
  output_writable :: bool

text \<open>
  One round of the loop of \<open>parse_published_date\<close>, for a date field with text \<open>raw\<close> and
  parsed value \<open>parsed\<close>: \<open>Some t\<close> when the round returns \<open>t\<close>, \<open>None\<close> when the loop
  goes on, because the key is absent or an exception was caught.
\<close>

definition try_date_field :: "env \<Rightarrow> string option \<Rightarrow> struct_time option \<Rightarrow> int option" where
  "try_date_field E raw parsed =
     (case raw of
        None \<Rightarrow> None
      | Some s \<Rightarrow>
          (case parsed of
             Some st \<Rightarrow> fromtimestamp_mktime E st
           | None \<Rightarrow>
               (case date_parser_parse E s of
                  None \<Rightarrow> None
                | Some (Naive t) \<Rightarrow> Some t
                | Some (Aware t) \<Rightarrow> Some t)))"

definition parse_published_date :: "env \<Rightarrow> entry \<Rightarrow> int option" where
  "parse_published_date E e =
     (case try_date_field E (e_published e) (e_published_parsed e) of
        Some t \<Rightarrow> Some t
      | None \<Rightarrow>
          (case try_date_field E (e_updated e) (e_updated_parsed e) of
             Some t \<Rightarrow> Some t
           | None \<Rightarrow> try_date_field E (e_created e) (e_created_parsed e)))"

text \<open>The article that \<open>fetch_articles\<close> builds from an entry.\<close>

definition make_article :: "feed \<Rightarrow> string \<Rightarrow> entry \<Rightarrow> string \<Rightarrow> bool \<Rightarrow> article" where
  "make_article fd feed_url e pub_date_str verified =
     \<lparr>title = Some (dict_get (e_title e) ''No Title''),
      summary = None,
      description = Some (dict_get (e_summary e) (dict_get (e_description e) [])),
      link = None,
      url = Some (dict_get (e_link e) []),
      published = Some pub_date_str,
      date_verified = Some verified,
      source = Some (dict_get (feed_title fd) feed_url),
      source_url = Some feed_url,
      author = Some (dict_get (e_author e) []),
      tags = Some (dict_get (e_tags e) [])\<rparr>"

text \<open>
  The loop of \<open>fetch_articles\<close> over the entries of a feed. (An exception raised in
  \<open>fetch_articles\<close> ends the feed with the articles built so far; with the fields typed
  as above none is raised.)
\<close>

fun fetch_loop :: "env \<Rightarrow> feed \<Rightarrow> string \<Rightarrow> int \<Rightarrow> entry list \<Rightarrow> article list" where
  "fetch_loop E fd feed_url cutoff [] = []"
| "fetch_loop E fd feed_url cutoff (e # rest) =
     (case parse_published_date E e of
        None \<Rightarrow> make_article fd feed_url e ''Unknown'' False # fetch_loop E fd feed_url cutoff rest
      | Some pub_date \<Rightarrow>
          (if pub_date < cutoff then fetch_loop E fd feed_url cutoff rest
           else make_article fd feed_url e (isoformat E pub_date) True
                  # fetch_loop E fd feed_url cutoff rest))"

definition fetch_articles :: "env \<Rightarrow> string \<Rightarrow> int \<Rightarrow> article list" where
  "fetch_articles E feed_url cutoff =
     (let fd = feedparser_parse E feed_url in fetch_loop E fd feed_url cutoff (entries fd))"

text \<open>The output of \<open>collect_articles\<close>, without the time of the run.\<close>

record collected =
  c_cutoff_time :: int
  c_hours :: int
  c_total_articles :: nat
  c_articles :: "article list"

text \<open>
  The feed configuration file, which is read as UTF-8 text: it does not exist, or its text
  is not JSON, or it is a JSON value other than an object, or it is an object, given by the
  value of its key \<open>feeds\<close>, if any, a list of strings.
\<close>

datatype config_file = No_file | Not_json | Not_object | Config "string list option"

text \<open>
  \<open>load_feed_config\<close>: it exits with status 1 when the file does not exist; \<open>json.load\<close>
  raises \<open>JSONDecodeError\<close>; \<open>config.get\<close> raises \<open>AttributeError\<close> on a value that is no
  object.
\<close>

fun load_feed_config :: "config_file \<Rightarrow> error + string list" where
  "load_feed_config No_file = Inl (SystemExit 1)"
| "load_feed_config Not_json = Inl JSONDecodeError"
| "load_feed_config Not_object = Inl AttributeError"
| "load_feed_config (Config feeds) = Inr (dict_get feeds [])"

text \<open>
  \<open>collect_articles\<close>: the cutoff, the configuration, the articles of all feeds, sorted by
  \<open>published\<close>, and the output, which is written at the end.
\<close>

definition collect_articles :: "env \<Rightarrow> int \<Rightarrow> int \<Rightarrow> config_file \<Rightarrow> error + collected" where
  "collect_articles E now hours config =
     (case cutoff_time now hours of
        Inl e \<Rightarrow> Inl e
      | Inr cutoff \<Rightarrow>
          (case load_feed_config config of
             Inl e \<Rightarrow> Inl e
           | Inr feed_urls \<Rightarrow>
               (let all_articles = concat (map (\<lambda>feed_url. fetch_articles E feed_url cutoff) feed_urls);
                    all_articles =
                      sort_reverse
                        (\<lambda>x. if dict_get (published x) [] \<noteq> ''Unknown''
                             then dict_get (published x) [] else [])
                        all_articles
                in if output_writable E
                   then Inr \<lparr>c_cutoff_time = cutoff, c_hours = hours,
                             c_total_articles = length all_articles,
                             c_articles = all_articles\<rparr>
                   else Inl OSError)))"

text \<open>
  \<open>main\<close>: \<open>argparse\<close> converts \<open>--hours\<close> with \<open>int\<close> (default 24) and \<open>main\<close> passes
  the number on as it is.
\<close>

definition main_collect :: "env \<Rightarrow> int \<Rightarrow> int option \<Rightarrow> config_file \<Rightarrow> error + collected" where
  "main_collect E now hours_arg config = collect_articles E now (dict_get hours_arg 24) config"

text \<open>
  \<open>kept E cutoff e\<close>: the entry \<open>e\<close> has no date that \<open>parse_published_date\<close> finds, or a
  date that is not before the cutoff.
\<close>

definition kept :: "env \<Rightarrow> int \<Rightarrow> entry \<Rightarrow> bool" where
  "kept E cutoff e =
     (case parse_published_date E e of None \<Rightarrow> True | Some pub_date \<Rightarrow> \<not> pub_date < cutoff)"

section \<open>Example inputs\<close>

definition empty_article :: article where
  "empty_article =
     \<lparr>title = None, summary = None, description = None, link = None, url = None,
      published = None, date_verified = None, source = None, source_url = None,
      author = None, tags = None\<rparr>"

definition ex_no_agent :: article where
  "ex_no_agent =
     empty_article\<lparr>title := Some ''llm api code'',
                    published := Some ''2026-11-03T00:00:00Z''\<rparr>"

definition ex_penalty :: article where
  "ex_penalty = empty_article\<lparr>title := Some ''agent'', link := Some ''https://arxiv.org/abs/1''\<rparr>"

definition ex_fromisoformat :: "string \<Rightarrow> pydatetime option" where
  "ex_fromisoformat s =
     (if s = ''2026-11-03T00:00:00+00:00'' then Some (Aware 1793664000000000) else None)"

definition ex_now :: int where
  "ex_now = 1793667600000000"

definition ex_dated :: article where
  "ex_dated =
     empty_article\<lparr>title := Some ''Agentic workflow using API'',
                    published := Some ''2026-11-03T00:00:00Z''\<rparr>"

definition ex_undated :: article where
  "ex_undated = ex_dated\<lparr>published := Some ''Unknown''\<rparr>"



definition ex_paper :: article where
  "ex_paper =
     empty_article\<lparr>title := Some ''a framework'', url := Some ''https://arxiv.org/abs/1''\<rparr>"

definition ex_blog :: article where
  "ex_blog =
     empty_article\<lparr>title := Some ''production framework'', url := Some ''https://example.com''\<rparr>"

definition ex_item_aa :: "article \<Rightarrow> item_aa" where
  "ex_item_aa a =
     \<lparr>aa_article = a, aa_score = PInt 90, aa_reason = ''agent keywords (3)'',
      aa_category = categorize_article_aa a (PInt 90)\<rparr>"

definition ex_item_at :: "article \<Rightarrow> item_at" where
  "ex_item_at a = \<lparr>at_article = a, at_score = 90, at_category = categorize_article_at a\<rparr>"

definition ex_item_fg :: "article \<Rightarrow> item_fg" where
  "ex_item_fg a = \<lparr>fg_article = a, relevance_score = 90, category = categorize_article_fg a\<rparr>"

text \<open>Four arXiv papers and then an article from elsewhere.\<close>

definition ex_pool :: "article list" where
  "ex_pool = [ex_paper, ex_paper, ex_paper, ex_paper, ex_blog]"

text \<open>\<open>ex_blog\<close> with other values under the keys that the scorers do not read.\<close>

definition ex_blog_other :: article where
  "ex_blog_other =
     ex_blog\<lparr>published := Some ''Unknown'', source := Some ''A feed'',
             author := Some ''An author'', tags := Some [''ai'']\<rparr>"

text \<open>
  A feed with two entries, published at 03:00 and at 07:00 on 3 November 2026, and the
  library around it.
\<close>

definition ex_entry_early :: entry where
  "ex_entry_early =
     \<lparr>e_title = Some ''Early news'', e_link = Some ''https://example.com/0'',
      e_summary = None, e_description = None, e_author = None, e_tags = None,
      e_published = Some ''Tue, 03 Nov 2026 03:00:00 GMT'',
      e_published_parsed = Some [2026, 11, 3, 3, 0, 0, 1, 307, 0],
      e_updated = None, e_updated_parsed = None,
      e_created = None, e_created_parsed = None\<rparr>"

definition ex_entry :: entry where
  "ex_entry =
     \<lparr>e_title = Some ''Agent news'', e_link = Some ''https://example.com/1'',
      e_summary = None, e_description = None, e_author = None, e_tags = None,
      e_published = Some ''Tue, 03 Nov 2026 07:00:00 GMT'',
      e_published_parsed = Some [2026, 11, 3, 7, 0, 0, 1, 307, 0],
      e_updated = None, e_updated_parsed = None,
      e_created = None, e_created_parsed = None\<rparr>"

definition ex_feed :: feed where
  "ex_feed = \<lparr>feed_title = Some ''Example feed'', entries = [ex_entry_early, ex_entry]\<rparr>"

definition ex_env :: env where
  "ex_env =
     \<lparr>isoformat =
        (\<lambda>t. if t = 1793689200000000 then ''2026-11-03T07:00:00+00:00''
             else ''2026-11-03T03:00:00+00:00''),
      fromtimestamp_mktime =
        (\<lambda>st. if st = [2026, 11, 3, 7, 0, 0, 1, 307, 0] then Some 1793689200000000
              else Some 1793674800000000),
      date_parser_parse = (\<lambda>s. None),
      feedparser_parse = (\<lambda>u. ex_feed),
      output_writable = True\<rparr>"

text \<open>An article without agent keyword, from arXiv, and one for each of five arXiv papers.\<close>

definition ex_no_agent_fg :: article where
  "ex_no_agent_fg =
     empty_article\<lparr>title := Some ''novel llm api code'',
                    url := Some ''https://arxiv.org/abs/2''\<rparr>"

definition ex_upper_paper :: "nat \<Rightarrow> article" where
  "ex_upper_paper i =
     empty_article\<lparr>title := Some ''agentic ai api code'',
                    url := Some (''https://ARXIV.ORG/abs/'' @ str_nat i)\<rparr>"

definition ex_upper_pool :: "article list" where
  "ex_upper_pool = map ex_upper_paper [1, 2, 3, 4, 5]"

section \<open>Preprint tests of the selection loops\<close>

text \<open>The test that each selection loop applies to an item to see whether it is an arXiv paper.\<close>

abbreviation arxiv_at :: "item_at \<Rightarrow> bool" where
  "arxiv_at item \<equiv> py_in ''arxiv.org'' (dict_get (url (at_article item)) [])"

abbreviation arxiv_fg :: "item_fg \<Rightarrow> bool" where
  "arxiv_fg item \<equiv> py_in ''arxiv.org'' (dict_get (url (fg_article item)) [])"

abbreviation arxiv_aa :: "item_aa \<Rightarrow> bool" where
  "arxiv_aa item \<equiv> is_arxiv_aa (aa_article item)"

section \<open>Auxiliary lemmas\<close>

subsection \<open>Sorting\<close>

lemma sort_reverse_sorted: "sorted_wrt (\<lambda>x y. f x \<ge> f y) (sort_reverse f xs)"
proof -
  have "sorted (map f (sort_key f (rev xs)))" by simp
  then have "sorted_wrt (\<lambda>x y. f x \<le> f y) (sort_key f (rev xs))"
    by (simp add: sorted_map)
  then show ?thesis
    unfolding sort_reverse_def by (simp add: sorted_wrt_rev)
qed

lemma sort_reverse_stable:
  "filter (\<lambda>y. f y = k) (sort_reverse f xs) = filter (\<lambda>y. f y = k) xs"
proof -
  have "filter (\<lambda>y. f y = k) (rev (sort_key f (rev xs))) =
        rev (filter (\<lambda>y. f y = k) (sort_key f (rev xs)))"
    by (rule rev_filter [symmetric])
  also have "\<dots> = rev (filter (\<lambda>y. f y = k) (rev xs))"
    by (simp only: sort_key_stable)
  also have "\<dots> = filter (\<lambda>y. f y = k) xs"
    by (simp add: rev_filter [symmetric])
  finally show ?thesis
    unfolding sort_reverse_def .
qed

lemma set_sort_reverse: "set (sort_reverse f xs) = set xs"
  unfolding sort_reverse_def by simp

lemma length_sort_reverse: "length (sort_reverse f xs) = length xs"
  unfolding sort_reverse_def by simp

lemma sorted_wrt_subseq:
  "subseq xs ys \<Longrightarrow> sorted_wrt P ys \<Longrightarrow> sorted_wrt P xs"
proof (induction rule: list_emb.induct)
  case (list_emb_Nil ys)
  then show ?case by simp
next
  case (list_emb_Cons xs ys y)
  then show ?case by simp
next
  case (list_emb_Cons2 x y xs ys)
  then have "set xs \<subseteq> set ys"
    by (auto dest: list_emb_set)
  with list_emb_Cons2 show ?case by auto
qed

subsection \<open>The selection loops\<close>

lemma select_loop_at_append:
  "\<exists>ys. select_loop_at xs sel n = sel @ ys \<and> subseq ys xs"
proof (induction xs arbitrary: sel n)
  case Nil
  then show ?case by simp
next
  case (Cons item rest)
  show ?case
  proof (cases "length sel \<ge> 12")
    case True
    then show ?thesis by simp
  next
    case False
    show ?thesis
    proof (cases "arxiv_at item \<and> n \<ge> max_arxiv")
      case True
      obtain ys where "select_loop_at rest sel n = sel @ ys" "subseq ys rest"
        using Cons.IH by blast
      with True False show ?thesis by auto
    next
      case F2: False
      obtain ys where "select_loop_at rest (sel @ [item]) (if arxiv_at item then n + 1 else n) = (sel @ [item]) @ ys" "subseq ys rest"
        using Cons.IH by blast
      with F2 False show ?thesis by (auto split: if_splits)
    qed
  qed
qed

lemma select_loop_at_count:
  "length (filter arxiv_at sel) = n \<Longrightarrow> n \<le> max_arxiv \<Longrightarrow>
   length (filter arxiv_at (select_loop_at xs sel n)) \<le> max_arxiv"
proof (induction xs arbitrary: sel n)
  case Nil
  then show ?case by simp
next
  case (Cons item rest)
  show ?case
  proof (cases "length sel \<ge> 12")
    case True
    with Cons.prems show ?thesis by simp
  next
    case False
    show ?thesis
    proof (cases "arxiv_at item")
      case True
      show ?thesis
      proof (cases "n \<ge> max_arxiv")
        case T2: True
        have "length (filter arxiv_at (select_loop_at rest sel n)) \<le> max_arxiv"
          using Cons.IH Cons.prems by blast
        with False True T2 show ?thesis by simp
      next
        case F2: False
        have "length (filter arxiv_at (sel @ [item])) = n + 1"
          using True Cons.prems by simp
        moreover have "n + 1 \<le> max_arxiv" using F2 by simp
        ultimately have "length (filter arxiv_at (select_loop_at rest (sel @ [item]) (n + 1))) \<le> max_arxiv"
          using Cons.IH by blast
        with False True F2 show ?thesis by simp
      qed
    next
      case F1: False
      have "length (filter arxiv_at (sel @ [item])) = n"
        using F1 Cons.prems by simp
      then have "length (filter arxiv_at (select_loop_at rest (sel @ [item]) n)) \<le> max_arxiv"
        using Cons.IH Cons.prems by blast
      with False F1 show ?thesis by simp
    qed
  qed
qed

lemma select_loop_at_length:
  "length sel \<le> 12 \<Longrightarrow> length (select_loop_at xs sel n) \<le> 12"
  by (induction xs arbitrary: sel n) auto

lemma select_loop_at_keep:
  "length (select_loop_at xs sel n) < 12 \<Longrightarrow>
   filter (\<lambda>x. \<not> arxiv_at x) (select_loop_at xs sel n) =
   filter (\<lambda>x. \<not> arxiv_at x) sel @ filter (\<lambda>x. \<not> arxiv_at x) xs"
  by (induction xs arbitrary: sel n) (auto split: if_splits)


lemma select_loop_fg_append:
  "\<exists>ys. fst (select_loop_fg xs m sel n) = sel @ ys \<and> subseq ys xs"
proof (induction xs arbitrary: m sel n)
  case Nil
  then show ?case by simp
next
  case (Cons item rest)
  show ?case
  proof (cases "length sel \<ge> 15")
    case True
    then show ?thesis by simp
  next
    case False
    show ?thesis
    proof (cases "arxiv_fg item \<and> n \<ge> max_arxiv")
      case True
      obtain ys where "fst (select_loop_fg rest m sel n) = sel @ ys" "subseq ys rest"
        using Cons.IH by blast
      with True False show ?thesis by auto
    next
      case F2: False
      let ?m = "m(category item \<mapsto> dict_get (m (category item)) 0 + 1)"
      let ?n = "if arxiv_fg item then n + 1 else n"
      obtain ys where "fst (select_loop_fg rest ?m (sel @ [item]) ?n) = (sel @ [item]) @ ys"
        "subseq ys rest"
        using Cons.IH by blast
      with F2 False show ?thesis by (auto split: if_splits)
    qed
  qed
qed

lemma select_loop_fg_count:
  "length (filter arxiv_fg sel) = n \<Longrightarrow> n \<le> max_arxiv \<Longrightarrow>
   length (filter arxiv_fg (fst (select_loop_fg xs m sel n))) \<le> max_arxiv"
proof (induction xs arbitrary: m sel n)
  case Nil
  then show ?case by simp
next
  case (Cons item rest)
  let ?m = "m(category item \<mapsto> dict_get (m (category item)) 0 + 1)"
  show ?case
  proof (cases "length sel \<ge> 15")
    case True
    with Cons.prems show ?thesis by simp
  next
    case False
    show ?thesis
    proof (cases "arxiv_fg item")
      case True
      show ?thesis
      proof (cases "n \<ge> max_arxiv")
        case T2: True
        have "length (filter arxiv_fg (fst (select_loop_fg rest m sel n))) \<le> max_arxiv"
          using Cons.IH Cons.prems by blast
        with False True T2 show ?thesis by simp
      next
        case F2: False
        have "length (filter arxiv_fg (sel @ [item])) = n + 1"
          using True Cons.prems by simp
        moreover have "n + 1 \<le> max_arxiv" using F2 by simp
        ultimately have
          "length (filter arxiv_fg (fst (select_loop_fg rest ?m (sel @ [item]) (n + 1)))) \<le> max_arxiv"
          using Cons.IH by blast
        with False True F2 show ?thesis by simp
      qed
    next
      case F1: False
      have "length (filter arxiv_fg (sel @ [item])) = n"
        using F1 Cons.prems by simp
      then have
        "length (filter arxiv_fg (fst (select_loop_fg rest ?m (sel @ [item]) n))) \<le> max_arxiv"
        using Cons.IH Cons.prems by blast
      with False F1 show ?thesis by simp
    qed
  qed
qed

lemma select_loop_fg_length:
  "length sel \<le> 15 \<Longrightarrow> length (fst (select_loop_fg xs m sel n)) \<le> 15"
  by (induction xs arbitrary: m sel n) auto

lemma select_loop_fg_keep:
  "length (fst (select_loop_fg xs m sel n)) < 15 \<Longrightarrow>
   filter (\<lambda>x. \<not> arxiv_fg x) (fst (select_loop_fg xs m sel n)) =
   filter (\<lambda>x. \<not> arxiv_fg x) sel @ filter (\<lambda>x. \<not> arxiv_fg x) xs"
  by (induction xs arbitrary: m sel n) (auto split: if_splits)

lemma limit_loop_aa_append:
  "\<exists>ys. fst (limit_loop_aa xs m n acc) = acc @ ys \<and> subseq ys xs"
proof (induction xs arbitrary: m n acc)
  case Nil
  then show ?case by simp
next
  case (Cons item rest)
  show ?case
  proof (cases "arxiv_aa item \<and> n \<ge> arxiv_limit")
    case True
    obtain ys where "fst (limit_loop_aa rest m n acc) = acc @ ys" "subseq ys rest"
      using Cons.IH by blast
    with True show ?thesis by auto
  next
    case False
    let ?m = "m(aa_category item \<mapsto> dict_get (m (aa_category item)) [] @ [item])"
    let ?n = "if arxiv_aa item then n + 1 else n"
    obtain ys where "fst (limit_loop_aa rest ?m ?n (acc @ [item])) = (acc @ [item]) @ ys"
      "subseq ys rest"
      using Cons.IH by blast
    with False show ?thesis by (auto split: if_splits)
  qed
qed

lemma limit_loop_aa_count:
  "length (filter arxiv_aa acc) = n \<Longrightarrow> n \<le> arxiv_limit \<Longrightarrow>
   length (filter arxiv_aa (fst (limit_loop_aa xs m n acc))) \<le> arxiv_limit"
proof (induction xs arbitrary: m n acc)
  case Nil
  then show ?case by simp
next
  case (Cons item rest)
  let ?m = "m(aa_category item \<mapsto> dict_get (m (aa_category item)) [] @ [item])"
  show ?case
  proof (cases "arxiv_aa item")
    case True
    show ?thesis
    proof (cases "n \<ge> arxiv_limit")
      case T2: True
      have "length (filter arxiv_aa (fst (limit_loop_aa rest m n acc))) \<le> arxiv_limit"
        using Cons.IH Cons.prems by blast
      with True T2 show ?thesis by simp
    next
      case F2: False
      have "length (filter arxiv_aa (acc @ [item])) = n + 1"
        using True Cons.prems by simp
      moreover have "n + 1 \<le> arxiv_limit" using F2 by simp
      ultimately have
        "length (filter arxiv_aa (fst (limit_loop_aa rest ?m (n + 1) (acc @ [item])))) \<le> arxiv_limit"
        using Cons.IH by blast
      with True F2 show ?thesis by simp
    qed
  next
    case F1: False
    have "length (filter arxiv_aa (acc @ [item])) = n"
      using F1 Cons.prems by simp
    then have
      "length (filter arxiv_aa (fst (limit_loop_aa rest ?m n (acc @ [item])))) \<le> arxiv_limit"
      using Cons.IH Cons.prems by blast
    with F1 show ?thesis by simp
  qed
qed

lemma limit_loop_aa_keep:
  "filter (\<lambda>x. \<not> arxiv_aa x) (fst (limit_loop_aa xs m n acc)) =
   filter (\<lambda>x. \<not> arxiv_aa x) acc @ filter (\<lambda>x. \<not> arxiv_aa x) xs"
  by (induction xs arbitrary: m n acc) (auto split: if_splits)

subsection \<open>The scoring loops\<close>

lemma score_loop_at_articles:
  "map at_article (score_loop_at arts) = filter (\<lambda>a. score_article_at a \<ge> 60) arts"
  by (induction arts) (auto simp: Let_def)

lemma score_loop_at_score:
  "x \<in> set (score_loop_at arts) \<Longrightarrow> at_score x = score_article_at (at_article x)"
  by (induction arts) (auto simp: Let_def split: if_splits)

lemma score_loop_fg_articles:
  "map fg_article (score_loop_fg arts) = filter (\<lambda>a. score_article_fg a \<ge> 60) arts"
  by (induction arts) (auto simp: Let_def)

lemma score_loop_fg_score:
  "x \<in> set (score_loop_fg arts) \<Longrightarrow> relevance_score x = score_article_fg (fg_article x)"
  by (induction arts) (auto simp: Let_def split: if_splits)

lemma score_loop_aa_articles:
  "map aa_article (score_loop_aa arts) =
   filter (\<lambda>a. num_val (fst (score_article_aa a)) \<ge> 60) arts"
  by (induction arts) (auto simp: Let_def split_beta)

lemma score_loop_aa_score:
  "x \<in> set (score_loop_aa arts) \<Longrightarrow> aa_score x = fst (score_article_aa (aa_article x))"
  by (induction arts) (auto simp: Let_def split_beta split: if_splits)


lemma main_aa_member:
  assumes x: "x \<in> set (main_aa f now arts)"
  shows "aa_article x \<in> set arts"
    and "is_recent f now (dict_get (published (aa_article x)) []) 48"
    and "aa_score x = fst (score_article_aa (aa_article x))"
    and "num_val (fst (score_article_aa (aa_article x))) \<ge> 60"
proof -
  let ?recent = "filter (\<lambda>a. is_recent f now (dict_get (published a) []) 48) arts"
  let ?sorted = "sort_reverse (\<lambda>x. num_val (aa_score x)) (score_loop_aa ?recent)"
  obtain ys where "fst (limit_loop_aa ?sorted Map.empty 0 []) = [] @ ys" "subseq ys ?sorted"
    using limit_loop_aa_append by blast
  with x have "x \<in> set ?sorted"
    by (auto simp: main_aa_def Let_def dest: list_emb_set)
  then have in_loop: "x \<in> set (score_loop_aa ?recent)"
    by (simp add: set_sort_reverse)
  then have "aa_article x \<in> set (map aa_article (score_loop_aa ?recent))"
    by simp
  then have mem: "aa_article x \<in> set (filter (\<lambda>a. num_val (fst (score_article_aa a)) \<ge> 60) ?recent)"
    by (simp only: score_loop_aa_articles)
  from mem show "aa_article x \<in> set arts" by simp
  from mem show "is_recent f now (dict_get (published (aa_article x)) []) 48" by simp
  from in_loop show "aa_score x = fst (score_article_aa (aa_article x))"
    by (rule score_loop_aa_score)
  from mem show "num_val (fst (score_article_aa (aa_article x))) \<ge> 60" by simp
qed

subsection \<open>Score bounds\<close>

lemma clamp_range: "0 \<le> max 0 (min 100 (x::int)) \<and> max 0 (min 100 x) \<le> 100"
  by simp

lemma score_article_at_range: "0 \<le> score_article_at a \<and> score_article_at a \<le> 100"
  unfolding score_article_at_def Let_def by (rule clamp_range)

lemma score_article_fg_range: "0 \<le> score_article_fg a \<and> score_article_fg a \<le> 100"
  unfolding score_article_fg_def Let_def by (rule clamp_range)

lemma fst_if: "fst (if c then x else y) = (if c then fst x else fst y)"
  by simp

lemma score_article_aa_fst:
  "fst (score_article_aa a) =
     (let n = count_in agent_keywords_aa (content_aa a);
          p = count_in production_keywords_aa (content_aa a);
          f = count_in framework_keywords_aa (content_aa a);
          s1 = min (int n * 15) 40;
          s2 = (if p > 0 then s1 + min (int p * 20) 50 else s1);
          s3 = (if f > 0 then s2 + min (int f * 10) 30 else s2);
          s4 = (if is_arxiv_aa a \<and> p = 0
                then py_min (PFloat (of_int s3 * (3 / 10))) (PInt 40) else PInt s3)
      in if n = 0 then PInt 0 else py_min s4 (PInt 100))"
  by (simp only: score_article_aa_def Let_def fst_if fst_conv)

lemma points_aa_bounds:
  fixes n p f :: nat
  assumes "n > 0"
  defines "s1 \<equiv> min (int n * 15) 40"
  defines "s2 \<equiv> (if p > 0 then s1 + min (int p * 20) 50 else s1)"
  defines "s3 \<equiv> (if f > 0 then s2 + min (int f * 10) 30 else s2)"
  shows "15 \<le> s3 \<and> s3 \<le> 120 \<and> (p = 0 \<longrightarrow> s3 \<le> 70)"
proof -
  have 1: "15 \<le> s1 \<and> s1 \<le> 40" using assms(1) unfolding s1_def by auto
  have 2: "s1 \<le> s2 \<and> s2 \<le> s1 + 50 \<and> (p = 0 \<longrightarrow> s2 = s1)" unfolding s2_def by auto
  have 3: "s2 \<le> s3 \<and> s3 \<le> s2 + 30" unfolding s3_def by auto
  from 1 2 3 show ?thesis by auto
qed

lemma py_min_le2: "num_val (py_min x y) \<le> num_val y"
  by (simp add: py_min_def)

lemma py_min_le1: "num_val (py_min x y) \<le> num_val x"
  by (simp add: py_min_def)

lemma py_min_ge: "l \<le> num_val x \<Longrightarrow> l \<le> num_val y \<Longrightarrow> l \<le> num_val (py_min x y)"
  by (simp add: py_min_def)

lemma score_article_aa_range:
  "0 \<le> num_val (fst (score_article_aa a)) \<and> num_val (fst (score_article_aa a)) \<le> 100"
proof -
  define n where "n = count_in agent_keywords_aa (content_aa a)"
  define p where "p = count_in production_keywords_aa (content_aa a)"
  define f where "f = count_in framework_keywords_aa (content_aa a)"
  define s3 where "s3 = (if f > 0 then (if p > 0 then min (int n * 15) 40 + min (int p * 20) 50
      else min (int n * 15) 40) + min (int f * 10) 30
    else (if p > 0 then min (int n * 15) 40 + min (int p * 20) 50 else min (int n * 15) 40))"
  define s4 where "s4 = (if is_arxiv_aa a \<and> p = 0
                then py_min (PFloat (of_int s3 * (3 / 10))) (PInt 40) else PInt s3)"
  have eq: "fst (score_article_aa a) = (if n = 0 then PInt 0 else py_min s4 (PInt 100))"
    unfolding n_def p_def f_def s3_def s4_def
    by (simp only: score_article_aa_fst Let_def)
  show ?thesis
  proof (cases "n = 0")
    case True
    with eq show ?thesis by simp
  next
    case False
    then have b: "15 \<le> s3 \<and> s3 \<le> 120 \<and> (p = 0 \<longrightarrow> s3 \<le> 70)"
      using points_aa_bounds [where n=n and p=p and f=f] unfolding s3_def by simp
    have "0 \<le> num_val s4"
      using b unfolding s4_def by (auto intro!: py_min_ge)
    then have lo: "0 \<le> num_val (py_min s4 (PInt 100))"
      by (auto intro!: py_min_ge)
    have hi: "num_val (py_min s4 (PInt 100)) \<le> 100"
      using py_min_le2 [of s4 "PInt 100"] by simp
    from False eq lo hi show ?thesis by simp
  qed
qed

lemma score_article_aa_gate:
  "count_in agent_keywords_aa (content_aa a) = 0 \<Longrightarrow> fst (score_article_aa a) = PInt 0"
  by (simp add: score_article_aa_fst)

subsection \<open>The agent keywords\<close>

lemma score_article_at_no_agent:
  assumes "count_in agentic_keywords_at (combined_of a) = 0"
  shows "score_article_at a \<le> 65"
proof -
  define c where "c = combined_of a"
  define u where "u = lower (dict_get (url a) [])"
  define s1 where "s1 = 0 + min 40 (int (count_in agentic_keywords_at c) * 15)"
  define s2 where "s2 = (if any_in production_keywords_at c then s1 + 25 else s1)"
  define s3 where "s3 = (if any_in ai_keywords_at c then s2 + 20 else s2)"
  define s4 where "s4 = (if any_in dev_keywords_at c then s3 + 10 else s3)"
  define s5 where "s5 = (if \<not> py_in ''arxiv.org'' u then s4 + 10 else s4)"
  define s6 where "s6 = (if py_in ''arxiv.org'' u
                    then (if any_in theory_keywords_at c then s5 - 15 else s5)
                    else s5)"
  have eq: "score_article_at a = max 0 (min 100 s6)"
    unfolding s6_def s5_def s4_def s3_def s2_def s1_def c_def u_def
    by (simp only: score_article_at_def Let_def)
  have "s1 = 0" using assms by (simp add: s1_def c_def)
  moreover have "s2 \<le> s1 + 25" by (simp add: s2_def)
  moreover have "s3 \<le> s2 + 20" by (simp add: s3_def)
  moreover have "s4 \<le> s3 + 10" by (simp add: s4_def)
  moreover have "s5 \<le> s4 + 10" by (simp add: s5_def)
  moreover have "s6 \<le> s5" by (simp add: s6_def)
  ultimately have "s6 \<le> 65" by linarith
  with eq show ?thesis by simp
qed

lemma score_article_fg_no_agent:
  assumes "\<not> any_in high_value_fg (combined_of a)"
  shows "score_article_fg a \<le> 60"
proof -
  define c where "c = combined_of a"
  define u where "u = lower (dict_get (url a) [])"
  define s1 where "s1 = (if any_in high_value_fg c then 0 + 20 else (0::int))"
  define s2 where "s2 = (if any_in production_keywords_fg c then s1 + 15 else s1)"
  define s3 where "s3 = (if any_in ai_keywords_fg c then s2 + 20 else s2)"
  define s4 where "s4 = (if any_in dev_keywords_fg c then s3 + 10 else s3)"
  define s5 where "s5 = (if \<not> py_in ''arxiv.org'' u then s4 + 10 else s4)"
  define s6 where "s6 = (if py_in ''arxiv.org'' u
                    then (if any_in theory_only_fg c then s5 - 20 else s5)
                    else s5)"
  define s7 where "s7 = (if py_in ''arxiv.org'' u
                    then (if any_in breakthrough_keywords_fg c then s6 + 15 else s6)
                    else s6)"
  have eq: "score_article_fg a = max 0 (min 100 s7)"
    unfolding s7_def s6_def s5_def s4_def s3_def s2_def s1_def c_def u_def
    by (simp only: score_article_fg_def Let_def)
  have "s1 = 0" using assms by (simp add: s1_def c_def)
  moreover have "s2 \<le> s1 + 15" by (simp add: s2_def)
  moreover have "s3 \<le> s2 + 20" by (simp add: s3_def)
  moreover have "s4 \<le> s3 + 10" by (simp add: s4_def)
  moreover have "(if py_in ''arxiv.org'' u then s5 = s4 else s5 = s4 + 10)" by (simp add: s5_def)
  moreover have "s6 \<le> s5" by (simp add: s6_def)
  moreover have "(if py_in ''arxiv.org'' u then s7 \<le> s6 + 15 else s7 = s6)" by (simp add: s7_def)
  ultimately have "s7 \<le> 60" by (cases "py_in ''arxiv.org'' u") simp_all
  with eq show ?thesis by simp
qed

lemma score_article_at_no_agent_eq:
  assumes "count_in agentic_keywords_at (combined_of a) = 0"
  shows "score_article_at a =
     max 0 (min 100
       ((if any_in production_keywords_at (combined_of a) then 25 else 0) +
        (if any_in ai_keywords_at (combined_of a) then 20 else 0) +
        (if any_in dev_keywords_at (combined_of a) then 10 else 0) +
        (if py_in ''arxiv.org'' (lower (dict_get (url a) []))
         then (if any_in theory_keywords_at (combined_of a) then - 15 else 0) else 10)))"
proof -
  define c where "c = combined_of a"
  define u where "u = lower (dict_get (url a) [])"
  define s1 where "s1 = 0 + min 40 (int (count_in agentic_keywords_at c) * 15)"
  define s2 where "s2 = (if any_in production_keywords_at c then s1 + 25 else s1)"
  define s3 where "s3 = (if any_in ai_keywords_at c then s2 + 20 else s2)"
  define s4 where "s4 = (if any_in dev_keywords_at c then s3 + 10 else s3)"
  define s5 where "s5 = (if \<not> py_in ''arxiv.org'' u then s4 + 10 else s4)"
  define s6 where "s6 = (if py_in ''arxiv.org'' u
                    then (if any_in theory_keywords_at c then s5 - 15 else s5)
                    else s5)"
  have eq: "score_article_at a = max 0 (min 100 s6)"
    unfolding s6_def s5_def s4_def s3_def s2_def s1_def c_def u_def
    by (simp only: score_article_at_def Let_def)
  have 1: "s1 = 0" using assms by (simp add: s1_def c_def)
  have 2: "s2 = (if any_in production_keywords_at c then 25 else 0)"
    by (simp add: s2_def 1)
  have 3: "s3 = s2 + (if any_in ai_keywords_at c then 20 else 0)"
    by (simp add: s3_def)
  have 4: "s4 = s3 + (if any_in dev_keywords_at c then 10 else 0)"
    by (simp add: s4_def)
  have 5: "s6 = s4 + (if py_in ''arxiv.org'' u
                      then (if any_in theory_keywords_at c then - 15 else 0) else 10)"
    by (simp add: s6_def s5_def)
  show ?thesis
    unfolding eq 5 4 3 2 c_def u_def by (rule refl)
qed

lemma score_article_fg_no_agent_eq:
  assumes "\<not> any_in high_value_fg (combined_of a)"
  shows "score_article_fg a =
     max 0 (min 100
       ((if any_in production_keywords_fg (combined_of a) then 15 else 0) +
        (if any_in ai_keywords_fg (combined_of a) then 20 else 0) +
        (if any_in dev_keywords_fg (combined_of a) then 10 else 0) +
        (if py_in ''arxiv.org'' (lower (dict_get (url a) []))
         then (if any_in theory_only_fg (combined_of a) then - 20 else 0) +
              (if any_in breakthrough_keywords_fg (combined_of a) then 15 else 0)
         else 10)))"
proof -
  define c where "c = combined_of a"
  define u where "u = lower (dict_get (url a) [])"
  define s1 where "s1 = (if any_in high_value_fg c then 0 + 20 else (0::int))"
  define s2 where "s2 = (if any_in production_keywords_fg c then s1 + 15 else s1)"
  define s3 where "s3 = (if any_in ai_keywords_fg c then s2 + 20 else s2)"
  define s4 where "s4 = (if any_in dev_keywords_fg c then s3 + 10 else s3)"
  define s5 where "s5 = (if \<not> py_in ''arxiv.org'' u then s4 + 10 else s4)"
  define s6 where "s6 = (if py_in ''arxiv.org'' u
                    then (if any_in theory_only_fg c then s5 - 20 else s5)
                    else s5)"
  define s7 where "s7 = (if py_in ''arxiv.org'' u
                    then (if any_in breakthrough_keywords_fg c then s6 + 15 else s6)
                    else s6)"
  have eq: "score_article_fg a = max 0 (min 100 s7)"
    unfolding s7_def s6_def s5_def s4_def s3_def s2_def s1_def c_def u_def
    by (simp only: score_article_fg_def Let_def)
  have 1: "s1 = 0" using assms by (simp add: s1_def c_def)
  have 2: "s2 = (if any_in production_keywords_fg c then 15 else 0)"
    by (simp add: s2_def 1)
  have 3: "s3 = s2 + (if any_in ai_keywords_fg c then 20 else 0)"
    by (simp add: s3_def)
  have 4: "s4 = s3 + (if any_in dev_keywords_fg c then 10 else 0)"
    by (simp add: s4_def)
  have 5: "s7 = s4 + (if py_in ''arxiv.org'' u
                      then (if any_in theory_only_fg c then - 20 else 0) +
                           (if any_in breakthrough_keywords_fg c then 15 else 0)
                      else 10)"
    by (simp add: s7_def s6_def s5_def)
  show ?thesis
    unfolding eq 5 4 3 2 c_def u_def by (rule refl)
qed

lemma main_aa_gate:
  assumes "count_in agent_keywords_aa (content_aa a) = 0"
  shows "a \<notin> aa_article ` set (main_aa fromisoformat now articles)"
proof
  assume "a \<in> aa_article ` set (main_aa fromisoformat now articles)"
  then obtain x where x: "x \<in> set (main_aa fromisoformat now articles)" and a: "a = aa_article x"
    by blast
  from main_aa_member(4) [OF x] a have "num_val (fst (score_article_aa a)) \<ge> 60"
    by simp
  with score_article_aa_gate [OF assms] show False by simp
qed

subsection \<open>The recency filter\<close>

lemma is_recent_unparsable:
  "fromisoformat (replace_Z published_str) = None \<Longrightarrow>
   \<not> is_recent fromisoformat now published_str hours"
  by (simp add: is_recent_def)

lemma dated_article_selected:
  "map aa_article (main_aa ex_fromisoformat ex_now [ex_dated]) = [ex_dated]"
  by code_simp

lemma fetch_loop_keeps_undated:
  "parse_published_date E e = None \<Longrightarrow>
   fetch_loop E fd feed_url c (e # rest) =
     make_article fd feed_url e ''Unknown'' False # fetch_loop E fd feed_url c rest"
  by simp

lemma undated_article_selected_at: "map at_article (main_at [ex_undated]) = [ex_undated]"
  by code_simp

subsection \<open>The selections\<close>

lemma filter_sort_reverse: "filter P (sort_reverse f xs) = sort_reverse f (filter P xs)"
  unfolding sort_reverse_def by (simp only: rev_filter [symmetric] filter_sort)

lemma main_at_subseq: "subseq (main_at arts) (sort_reverse at_score (score_loop_at arts))"
  using select_loop_at_append [of "sort_reverse at_score (score_loop_at arts)" "[]" 0]
  by (auto simp: main_at_def Let_def)

lemma main_fg_subseq: "subseq (main_fg arts) (sort_reverse relevance_score (score_loop_fg arts))"
  using select_loop_fg_append
    [of "sort_reverse relevance_score (score_loop_fg arts)" Map.empty "[]" 0]
  by (auto simp: main_fg_def Let_def)

lemma main_aa_subseq:
  "subseq (main_aa f now arts)
     (sort_reverse (\<lambda>x. num_val (aa_score x))
        (score_loop_aa (filter (\<lambda>a. is_recent f now (dict_get (published a) []) 48) arts)))"
  using limit_loop_aa_append
    [of "sort_reverse (\<lambda>x. num_val (aa_score x))
           (score_loop_aa (filter (\<lambda>a. is_recent f now (dict_get (published a) []) 48) arts))"
        Map.empty 0 "[]"]
  by (auto simp: main_aa_def Let_def)

text \<open>Items of equal key are in the order of the list that was sorted.\<close>

lemma subseq_ties:
  assumes "subseq ys (sort_reverse f xs)"
  shows "subseq (filter (\<lambda>x. f x = k) ys) xs"
proof -
  have "subseq (filter (\<lambda>x. f x = k) ys) (filter (\<lambda>x. f x = k) (sort_reverse f xs))"
    using assms by (rule subseq_filter)
  then have "subseq (filter (\<lambda>x. f x = k) ys) (filter (\<lambda>x. f x = k) xs)"
    by (simp only: sort_reverse_stable)
  then show ?thesis
    using subseq_filter_left subseq_order.trans by blast
qed

lemma main_at_ties:
  "subseq (map at_article (filter (\<lambda>x. at_score x = k) (main_at arts))) arts"
proof -
  have "subseq (filter (\<lambda>x. at_score x = k) (main_at arts)) (score_loop_at arts)"
    using main_at_subseq by (rule subseq_ties)
  then have "subseq (map at_article (filter (\<lambda>x. at_score x = k) (main_at arts)))
               (map at_article (score_loop_at arts))"
    by (rule subseq_map)
  then show ?thesis
    unfolding score_loop_at_articles
    using subseq_filter_left subseq_order.trans by blast
qed

lemma main_fg_ties:
  "subseq (map fg_article (filter (\<lambda>x. relevance_score x = k) (main_fg arts))) arts"
proof -
  have "subseq (filter (\<lambda>x. relevance_score x = k) (main_fg arts)) (score_loop_fg arts)"
    using main_fg_subseq by (rule subseq_ties)
  then have "subseq (map fg_article (filter (\<lambda>x. relevance_score x = k) (main_fg arts)))
               (map fg_article (score_loop_fg arts))"
    by (rule subseq_map)
  then show ?thesis
    unfolding score_loop_fg_articles
    using subseq_filter_left subseq_order.trans by blast
qed

lemma main_aa_ties:
  "subseq (map aa_article (filter (\<lambda>x. num_val (aa_score x) = r) (main_aa f now arts))) arts"
proof -
  let ?recent = "filter (\<lambda>a. is_recent f now (dict_get (published a) []) 48) arts"
  have "subseq (filter (\<lambda>x. num_val (aa_score x) = r) (main_aa f now arts))
          (score_loop_aa ?recent)"
    using main_aa_subseq by (rule subseq_ties)
  then have "subseq (map aa_article (filter (\<lambda>x. num_val (aa_score x) = r) (main_aa f now arts)))
               (map aa_article (score_loop_aa ?recent))"
    by (rule subseq_map)
  then have "subseq (map aa_article (filter (\<lambda>x. num_val (aa_score x) = r) (main_aa f now arts)))
               ?recent"
    unfolding score_loop_aa_articles
    using subseq_filter_left subseq_order.trans by blast
  then show ?thesis
    using subseq_filter_left subseq_order.trans by blast
qed

lemma main_at_length: "length (main_at arts) \<le> length (filter (\<lambda>a. 60 \<le> score_article_at a) arts)"
proof -
  have "length (main_at arts) \<le> length (sort_reverse at_score (score_loop_at arts))"
    using main_at_subseq by (rule list_emb_length)
  also have "\<dots> = length (map at_article (score_loop_at arts))"
    by (simp add: length_sort_reverse)
  finally show ?thesis
    by (simp only: score_loop_at_articles)
qed

lemma main_fg_length: "length (main_fg arts) \<le> length (filter (\<lambda>a. 60 \<le> score_article_fg a) arts)"
proof -
  have "length (main_fg arts) \<le> length (sort_reverse relevance_score (score_loop_fg arts))"
    using main_fg_subseq by (rule list_emb_length)
  also have "\<dots> = length (map fg_article (score_loop_fg arts))"
    by (simp add: length_sort_reverse)
  finally show ?thesis
    by (simp only: score_loop_fg_articles)
qed

text \<open>\<open>analyze_articles.py\<close> keeps every recent article of score 60 or more that is no arXiv paper.\<close>

lemma main_aa_keeps:
  "length (filter (\<lambda>a. \<not> is_arxiv_aa a)
             (filter (\<lambda>a. 60 \<le> num_val (fst (score_article_aa a)))
                (filter (\<lambda>a. is_recent f now (dict_get (published a) []) 48) arts)))
   \<le> length (main_aa f now arts)"
proof -
  let ?recent = "filter (\<lambda>a. is_recent f now (dict_get (published a) []) 48) arts"
  let ?scored = "score_loop_aa ?recent"
  let ?sorted = "sort_reverse (\<lambda>x. num_val (aa_score x)) ?scored"
  have "filter (\<lambda>x. \<not> arxiv_aa x) (main_aa f now arts) = filter (\<lambda>x. \<not> arxiv_aa x) ?sorted"
    using limit_loop_aa_keep [of ?sorted Map.empty 0 "[]"]
    by (simp add: main_aa_def Let_def)
  then have "length (filter (\<lambda>x. \<not> arxiv_aa x) ?sorted) \<le> length (main_aa f now arts)"
    by (metis length_filter_le)
  moreover have "length (filter (\<lambda>x. \<not> arxiv_aa x) ?sorted) =
                 length (filter (\<lambda>x. \<not> arxiv_aa x) ?scored)"
    by (simp only: filter_sort_reverse length_sort_reverse)
  moreover have "length (filter (\<lambda>x. \<not> arxiv_aa x) ?scored) =
                 length (filter (\<lambda>a. \<not> is_arxiv_aa a) (map aa_article ?scored))"
    by (simp add: filter_map o_def)
  ultimately show ?thesis
    by (simp only: score_loop_aa_articles)
qed

lemma main_aa_selects:
  assumes "a \<in> set arts"
    and "is_recent f now (dict_get (published a) []) 48"
    and "60 \<le> num_val (fst (score_article_aa a))"
    and "\<not> is_arxiv_aa a"
  shows "a \<in> aa_article ` set (main_aa f now arts)"
proof -
  let ?recent = "filter (\<lambda>a. is_recent f now (dict_get (published a) []) 48) arts"
  let ?scored = "score_loop_aa ?recent"
  let ?sorted = "sort_reverse (\<lambda>x. num_val (aa_score x)) ?scored"
  have "a \<in> set (filter (\<lambda>a. 60 \<le> num_val (fst (score_article_aa a))) ?recent)"
    using assms by simp
  then have "a \<in> set (map aa_article ?scored)"
    by (simp only: score_loop_aa_articles)
  then obtain x where x: "x \<in> set ?scored" "aa_article x = a"
    by auto
  then have "x \<in> set (filter (\<lambda>x. \<not> arxiv_aa x) ?sorted)"
    using assms(4) by (simp add: set_sort_reverse)
  moreover have "filter (\<lambda>x. \<not> arxiv_aa x) (main_aa f now arts) =
      filter (\<lambda>x. \<not> arxiv_aa x) ?sorted"
    using limit_loop_aa_keep [of ?sorted Map.empty 0 "[]"]
    by (simp add: main_aa_def Let_def)
  ultimately have "x \<in> set (filter (\<lambda>x. \<not> arxiv_aa x) (main_aa f now arts))"
    by simp
  then have "x \<in> set (main_aa f now arts)"
    by simp
  with x(2) show ?thesis
    by force
qed

lemma select_loop_at_stop: "12 \<le> length sel \<Longrightarrow> select_loop_at xs sel n = sel"
  by (cases xs) simp_all

lemma select_loop_fg_stop: "15 \<le> length sel \<Longrightarrow> fst (select_loop_fg xs m sel n) = sel"
  by (cases xs) simp_all

lemma main_at_cap: "length (filter arxiv_at (main_at arts)) \<le> 3"
  using select_loop_at_count [of "[]" 0 "sort_reverse at_score (score_loop_at arts)"]
  by (simp add: main_at_def Let_def max_arxiv_def)

lemma main_fg_cap: "length (filter arxiv_fg (main_fg arts)) \<le> 3"
  using select_loop_fg_count [of "[]" 0 "sort_reverse relevance_score (score_loop_fg arts)" Map.empty]
  by (simp add: main_fg_def Let_def max_arxiv_def)

lemma main_aa_cap: "length (filter arxiv_aa (main_aa f now arts)) \<le> 3"
  using limit_loop_aa_count [of "[]" 0
    "sort_reverse (\<lambda>x. num_val (aa_score x))
       (score_loop_aa (filter (\<lambda>a. is_recent f now (dict_get (published a) []) 48) arts))" Map.empty]
  by (simp add: main_aa_def Let_def arxiv_limit_def)

text \<open>
  With the test that a selection loop applies itself (the text \<open>arxiv.org\<close> occurs in the
  URL as it is written), the loop selects at most three arXiv papers, and so does \<open>main\<close>.
  A paper beyond the third is skipped and the walk goes on: \<open>analyze_articles.py\<close> selects
  every item that is no arXiv paper, and the two other programs do so whenever the walk ends
  below their maximum of 12, respectively 15, items.
\<close>

lemma preprint_cap_literal:
  "length (filter arxiv_aa (fst (limit_loop_aa xs Map.empty 0 []))) \<le> 3 \<and>
   filter (\<lambda>x. \<not> arxiv_aa x) (fst (limit_loop_aa xs Map.empty 0 [])) =
     filter (\<lambda>x. \<not> arxiv_aa x) xs \<and>
   length (filter arxiv_at (select_loop_at ys [] 0)) \<le> 3 \<and>
   (length (select_loop_at ys [] 0) < 12 \<longrightarrow>
      filter (\<lambda>x. \<not> arxiv_at x) (select_loop_at ys [] 0) = filter (\<lambda>x. \<not> arxiv_at x) ys) \<and>
   length (filter arxiv_fg (fst (select_loop_fg zs Map.empty [] 0))) \<le> 3 \<and>
   (length (fst (select_loop_fg zs Map.empty [] 0)) < 15 \<longrightarrow>
      filter (\<lambda>x. \<not> arxiv_fg x) (fst (select_loop_fg zs Map.empty [] 0)) =
        filter (\<lambda>x. \<not> arxiv_fg x) zs) \<and>
   length (filter arxiv_aa (main_aa f now arts)) \<le> 3 \<and>
   length (filter arxiv_at (main_at arts)) \<le> 3 \<and>
   length (filter arxiv_fg (main_fg arts)) \<le> 3"
proof -
  have "length (filter arxiv_aa (fst (limit_loop_aa xs Map.empty 0 []))) \<le> 3"
    using limit_loop_aa_count [of "[]" 0 xs Map.empty] by (simp add: arxiv_limit_def)
  moreover have "filter (\<lambda>x. \<not> arxiv_aa x) (fst (limit_loop_aa xs Map.empty 0 [])) =
      filter (\<lambda>x. \<not> arxiv_aa x) xs"
    using limit_loop_aa_keep [of xs Map.empty 0 "[]"] by simp
  moreover have "length (filter arxiv_at (select_loop_at ys [] 0)) \<le> 3"
    using select_loop_at_count [of "[]" 0 ys] by (simp add: max_arxiv_def)
  moreover have "length (select_loop_at ys [] 0) < 12 \<longrightarrow>
      filter (\<lambda>x. \<not> arxiv_at x) (select_loop_at ys [] 0) = filter (\<lambda>x. \<not> arxiv_at x) ys"
    using select_loop_at_keep [of ys "[]" 0] by simp
  moreover have "length (filter arxiv_fg (fst (select_loop_fg zs Map.empty [] 0))) \<le> 3"
    using select_loop_fg_count [of "[]" 0 zs Map.empty] by (simp add: max_arxiv_def)
  moreover have "length (fst (select_loop_fg zs Map.empty [] 0)) < 15 \<longrightarrow>
      filter (\<lambda>x. \<not> arxiv_fg x) (fst (select_loop_fg zs Map.empty [] 0)) =
        filter (\<lambda>x. \<not> arxiv_fg x) zs"
    using select_loop_fg_keep [of zs Map.empty "[]" 0] by simp
  ultimately show ?thesis
    using main_aa_cap main_at_cap main_fg_cap by blast
qed

lemma preprint_cap_literal_example:
  "length (select_loop_at (map ex_item_at ex_pool) [] 0) < 12 \<and>
   filter (\<lambda>x. \<not> arxiv_at x) (select_loop_at (map ex_item_at ex_pool) [] 0) =
     filter (\<lambda>x. \<not> arxiv_at x) (map ex_item_at ex_pool) \<and>
   select_loop_at (map ex_item_at ex_pool) [] 0 =
     [ex_item_at ex_paper, ex_item_at ex_paper, ex_item_at ex_paper, ex_item_at ex_blog] \<and>
   length (fst (select_loop_fg (map ex_item_fg ex_pool) Map.empty [] 0)) < 15 \<and>
   filter (\<lambda>x. \<not> arxiv_fg x) (fst (select_loop_fg (map ex_item_fg ex_pool) Map.empty [] 0)) =
     filter (\<lambda>x. \<not> arxiv_fg x) (map ex_item_fg ex_pool) \<and>
   fst (select_loop_fg (map ex_item_fg ex_pool) Map.empty [] 0) =
     [ex_item_fg ex_paper, ex_item_fg ex_paper, ex_item_fg ex_paper, ex_item_fg ex_blog]"
proof -
  have at: "select_loop_at (map ex_item_at ex_pool) [] 0 =
     [ex_item_at ex_paper, ex_item_at ex_paper, ex_item_at ex_paper, ex_item_at ex_blog]"
    by code_simp
  have fg: "fst (select_loop_fg (map ex_item_fg ex_pool) Map.empty [] 0) =
     [ex_item_fg ex_paper, ex_item_fg ex_paper, ex_item_fg ex_paper, ex_item_fg ex_blog]"
    by code_simp
  have at_len: "length (select_loop_at (map ex_item_at ex_pool) [] 0) < 12"
    by (simp only: at) simp
  have fg_len: "length (fst (select_loop_fg (map ex_item_fg ex_pool) Map.empty [] 0)) < 15"
    by (simp only: fg) simp
  show ?thesis
    using at fg at_len fg_len
      preprint_cap_literal [where ys = "map ex_item_at ex_pool" and zs = "map ex_item_fg ex_pool"]
    by blast
qed

subsection \<open>The categorizers\<close>

lemma categorize_article_aa_cascade:
  "categorize_article_aa a s \<in> set category_order \<and>
   (any_in production_indicators_aa (content_aa a) \<longrightarrow>
      categorize_article_aa a s = ''Production Use Cases'') \<and>
   (\<not> any_in production_indicators_aa (content_aa a) \<and>
    any_in framework_indicators_aa (content_aa a) \<and> \<not> is_arxiv_aa a \<longrightarrow>
      categorize_article_aa a s = ''Frameworks & Tools'') \<and>
   (\<not> any_in production_indicators_aa (content_aa a) \<and>
    \<not> (any_in framework_indicators_aa (content_aa a) \<and> \<not> is_arxiv_aa a) \<and>
    any_in resource_indicators_aa (content_aa a) \<longrightarrow>
      categorize_article_aa a s = ''Developer Resources'') \<and>
   (\<not> any_in production_indicators_aa (content_aa a) \<and>
    \<not> (any_in framework_indicators_aa (content_aa a) \<and> \<not> is_arxiv_aa a) \<and>
    \<not> any_in resource_indicators_aa (content_aa a) \<and>
    any_in analysis_indicators_aa (content_aa a) \<longrightarrow>
      categorize_article_aa a s = ''Trends & Analysis'') \<and>
   (\<not> any_in production_indicators_aa (content_aa a) \<and>
    \<not> (any_in framework_indicators_aa (content_aa a) \<and> \<not> is_arxiv_aa a) \<and>
    \<not> any_in resource_indicators_aa (content_aa a) \<and>
    \<not> any_in analysis_indicators_aa (content_aa a) \<longrightarrow>
      categorize_article_aa a s = ''Research & Breakthroughs'')"
  by (simp add: categorize_article_aa_def Let_def category_order_def)

lemma categorize_article_at_cascade:
  "categorize_article_at a \<in> set category_order \<and>
   (any_in production_terms_at (combined_of a) \<longrightarrow>
      categorize_article_at a = ''Production Use Cases'') \<and>
   (\<not> any_in production_terms_at (combined_of a) \<and>
    any_in framework_terms_at (combined_of a) \<longrightarrow>
      categorize_article_at a = ''Frameworks & Tools'') \<and>
   (\<not> any_in production_terms_at (combined_of a) \<and>
    \<not> any_in framework_terms_at (combined_of a) \<and>
    any_in resource_terms_at (combined_of a) \<longrightarrow>
      categorize_article_at a = ''Developer Resources'') \<and>
   (\<not> any_in production_terms_at (combined_of a) \<and>
    \<not> any_in framework_terms_at (combined_of a) \<and>
    \<not> any_in resource_terms_at (combined_of a) \<and>
    any_in analysis_terms_at (combined_of a) \<longrightarrow>
      categorize_article_at a = ''Trends & Analysis'') \<and>
   (\<not> any_in production_terms_at (combined_of a) \<and>
    \<not> any_in framework_terms_at (combined_of a) \<and>
    \<not> any_in resource_terms_at (combined_of a) \<and>
    \<not> any_in analysis_terms_at (combined_of a) \<longrightarrow>
      categorize_article_at a = ''Research & Breakthroughs'')"
  by (simp add: categorize_article_at_def Let_def category_order_def)

lemma categorize_article_fg_cascade:
  "categorize_article_fg a \<in> set category_order \<and>
   (any_in production_terms_fg (combined_of a) \<longrightarrow>
      categorize_article_fg a = ''Production Use Cases'') \<and>
   (\<not> any_in production_terms_fg (combined_of a) \<and>
    any_in framework_terms_fg (combined_of a) \<longrightarrow>
      categorize_article_fg a = ''Frameworks & Tools'') \<and>
   (\<not> any_in production_terms_fg (combined_of a) \<and>
    \<not> any_in framework_terms_fg (combined_of a) \<and>
    any_in resource_terms_fg (combined_of a) \<longrightarrow>
      categorize_article_fg a = ''Developer Resources'') \<and>
   (\<not> any_in production_terms_fg (combined_of a) \<and>
    \<not> any_in framework_terms_fg (combined_of a) \<and>
    \<not> any_in resource_terms_fg (combined_of a) \<and>
    any_in analysis_terms_fg (combined_of a) \<longrightarrow>
      categorize_article_fg a = ''Trends & Analysis'') \<and>
   (\<not> any_in production_terms_fg (combined_of a) \<and>
    \<not> any_in framework_terms_fg (combined_of a) \<and>
    \<not> any_in resource_terms_fg (combined_of a) \<and>
    \<not> any_in analysis_terms_fg (combined_of a) \<longrightarrow>
      categorize_article_fg a = ''Research & Breakthroughs'')"
  by (simp add: categorize_article_fg_def Let_def category_order_def)

lemma categorize_article_aa_preprint:
  "is_arxiv_aa a \<Longrightarrow> categorize_article_aa a s \<noteq> ''Frameworks & Tools''"
  by (simp add: categorize_article_aa_def Let_def)

lemma categorize_article_aa_preprint_later:
  "is_arxiv_aa a \<Longrightarrow> \<not> any_in production_indicators_aa (content_aa a) \<Longrightarrow>
   categorize_article_aa a s =
     (if any_in resource_indicators_aa (content_aa a) then ''Developer Resources''
      else if any_in analysis_indicators_aa (content_aa a) then ''Trends & Analysis''
      else ''Research & Breakthroughs'')"
  by (simp add: categorize_article_aa_def Let_def)

lemma categorize_article_at_url:
  "categorize_article_at (a\<lparr>url := u, link := l\<rparr>) = categorize_article_at a"
  by (simp add: categorize_article_at_def combined_of_def)

lemma categorize_article_fg_url:
  "categorize_article_fg (a\<lparr>url := u, link := l\<rparr>) = categorize_article_fg a"
  by (simp add: categorize_article_fg_def combined_of_def Let_def)

subsection \<open>The fields that the scorers read\<close>

lemma text_fields_aa:
  assumes "title a = title b" "summary a = summary b" "description a = description b"
    "link a = link b" "url a = url b"
  shows "score_article_aa a = score_article_aa b"
    and "categorize_article_aa a s = categorize_article_aa b s'"
proof -
  have c: "content_aa a = content_aa b"
    using assms by (simp add: content_aa_def)
  have x: "is_arxiv_aa a = is_arxiv_aa b"
    using assms by (simp add: is_arxiv_aa_def link_aa_def)
  show "score_article_aa a = score_article_aa b"
    by (simp only: score_article_aa_def c x)
  show "categorize_article_aa a s = categorize_article_aa b s'"
    by (simp only: categorize_article_aa_def c x)
qed

lemma text_fields_at:
  assumes "title a = title b" "description a = description b" "url a = url b"
  shows "score_article_at a = score_article_at b"
    and "categorize_article_at a = categorize_article_at b"
proof -
  have c: "combined_of a = combined_of b"
    using assms by (simp add: combined_of_def)
  show "score_article_at a = score_article_at b"
    by (simp only: score_article_at_def c assms(3))
  show "categorize_article_at a = categorize_article_at b"
    by (simp only: categorize_article_at_def c)
qed

lemma text_fields_fg:
  assumes "title a = title b" "description a = description b" "url a = url b"
  shows "score_article_fg a = score_article_fg b"
    and "categorize_article_fg a = categorize_article_fg b"
proof -
  have c: "combined_of a = combined_of b"
    using assms by (simp add: combined_of_def)
  show "score_article_fg a = score_article_fg b"
    by (simp only: score_article_fg_def c assms(3))
  show "categorize_article_fg a = categorize_article_fg b"
    by (simp only: categorize_article_fg_def c assms(3))
qed

subsection \<open>The collector\<close>

lemma cutoff_time_in_range:
  assumes "\<bar>hours div 24\<bar> \<le> 999999999"
    and "- 62135596800000000 \<le> now - hours * 3600000000"
    and "now - hours * 3600000000 \<le> 253402300799999999"
  shows "cutoff_time now hours = Inr (now - hours * 3600000000)"
  using assms by (simp add: cutoff_time_def timedelta_hours_def datetime_sub_def)

lemma cutoff_time_error: "cutoff_time now hours = Inl e \<Longrightarrow> e = OverflowError"
  by (auto simp: cutoff_time_def timedelta_hours_def datetime_sub_def split: if_splits)

lemma fetch_loop_length:
  "length (fetch_loop E fd feed_url cutoff es) = length (filter (kept E cutoff) es)"
  by (induction es) (auto simp: kept_def split: option.splits)

lemma fetch_all_length:
  "length (concat (map (\<lambda>feed_url. fetch_articles E feed_url cutoff) feed_urls)) =
   length (filter (kept E cutoff)
             (concat (map (\<lambda>feed_url. entries (feedparser_parse E feed_url)) feed_urls)))"
  by (induction feed_urls) (simp_all add: fetch_articles_def Let_def fetch_loop_length)

lemma collect_articles_accepts:
  assumes "\<bar>hours div 24\<bar> \<le> 999999999"
    and "- 62135596800000000 \<le> now - hours * 3600000000"
    and "now - hours * 3600000000 \<le> 253402300799999999"
    and "output_writable E"
  shows "\<exists>c. collect_articles E now hours (Config feeds) = Inr c \<and> c_hours c = hours \<and>
             c_cutoff_time c = now - hours * 3600000000 \<and>
             c_total_articles c = length (c_articles c) \<and>
             c_articles c =
               sort_reverse
                 (\<lambda>x. if dict_get (published x) [] \<noteq> ''Unknown''
                      then dict_get (published x) [] else [])
                 (concat (map (\<lambda>feed_url. fetch_articles E feed_url (now - hours * 3600000000))
                            (dict_get feeds []))) \<and>
             length (c_articles c) =
               length (filter (kept E (now - hours * 3600000000))
                         (concat (map (\<lambda>feed_url. entries (feedparser_parse E feed_url))
                                    (dict_get feeds []))))"
  using assms(4)
  by (simp add: collect_articles_def cutoff_time_in_range [OF assms(1,2,3)] Let_def
      length_sort_reverse fetch_all_length)

section \<open>Claims\<close>

subsection \<open>C1: the agent keywords as a gate\<close>

text \<open>
  C1. The claim: an article whose text contains none of the agent keywords scores 0 and is in
  no Selection, whatever the other keyword groups add. In \<open>analyze_today.py\<close> and in
  \<open>filter_and_generate.py\<close> the agent keywords only add points. The article with title
  \<open>llm api code\<close> contains none of them; \<open>analyze_today.py\<close> gives it
  25 + 20 + 10 + 10 = 65 points and selects it. The arXiv paper with title
  \<open>novel llm api code\<close> contains none of them; \<open>filter_and_generate.py\<close> gives it
  15 + 20 + 10 + 15 = 60 points and selects it.
\<close>

theorem agent_gate_counterexample:
  "count_in agentic_keywords_at (combined_of ex_no_agent) = 0 \<and>
   score_article_at ex_no_agent = 65 \<and>
   map at_article (main_at [ex_no_agent]) = [ex_no_agent] \<and>
   \<not> any_in high_value_fg (combined_of ex_no_agent_fg) \<and>
   score_article_fg ex_no_agent_fg = 60 \<and>
   map fg_article (main_fg [ex_no_agent_fg]) = [ex_no_agent_fg]"
  by code_simp

text \<open>
  C1, amended. In \<open>analyze_articles.py\<close> an article whose text contains none of the agent
  keywords scores 0 and is in no Selection. In \<open>analyze_today.py\<close> and
  \<open>filter_and_generate.py\<close> the agent keywords are no gate: such an article gets no
  points from them and its score is the sum of the points of the other groups, brought into
  the range 0 to 100; this sum is at most 65, respectively 60.
\<close>

theorem agent_gate:
  "(count_in agent_keywords_aa (content_aa a) = 0 \<longrightarrow>
      fst (score_article_aa a) = PInt 0 \<and>
      a \<notin> aa_article ` set (main_aa fromisoformat now articles)) \<and>
   (count_in agentic_keywords_at (combined_of a) = 0 \<longrightarrow>
      score_article_at a =
        max 0 (min 100
          ((if any_in production_keywords_at (combined_of a) then 25 else 0) +
           (if any_in ai_keywords_at (combined_of a) then 20 else 0) +
           (if any_in dev_keywords_at (combined_of a) then 10 else 0) +
           (if py_in ''arxiv.org'' (lower (dict_get (url a) []))
            then (if any_in theory_keywords_at (combined_of a) then - 15 else 0) else 10))) \<and>
      score_article_at a \<le> 65) \<and>
   (\<not> any_in high_value_fg (combined_of a) \<longrightarrow>
      score_article_fg a =
        max 0 (min 100
          ((if any_in production_keywords_fg (combined_of a) then 15 else 0) +
           (if any_in ai_keywords_fg (combined_of a) then 20 else 0) +
           (if any_in dev_keywords_fg (combined_of a) then 10 else 0) +
           (if py_in ''arxiv.org'' (lower (dict_get (url a) []))
            then (if any_in theory_only_fg (combined_of a) then - 20 else 0) +
                 (if any_in breakthrough_keywords_fg (combined_of a) then 15 else 0)
            else 10))) \<and>
      score_article_fg a \<le> 60)"
  using score_article_aa_gate [of a] main_aa_gate [of a fromisoformat now articles]
    score_article_at_no_agent [of a] score_article_fg_no_agent [of a]
    score_article_at_no_agent_eq [of a] score_article_fg_no_agent_eq [of a]
  by blast

theorem agent_gate_witness:
  "count_in agent_keywords_aa (content_aa ex_no_agent) = 0 \<and>
   fst (score_article_aa ex_no_agent) = PInt 0 \<and>
   ex_no_agent \<notin> aa_article ` set (main_aa ex_fromisoformat ex_now [ex_no_agent]) \<and>
   count_in agentic_keywords_at (combined_of ex_no_agent) = 0 \<and>
   score_article_at ex_no_agent = 65 \<and>
   score_article_at ex_no_agent \<le> 65 \<and>
   \<not> any_in high_value_fg (combined_of ex_no_agent) \<and>
   score_article_fg ex_no_agent \<le> 60 \<and>
   \<not> any_in high_value_fg (combined_of ex_no_agent_fg) \<and>
   score_article_fg ex_no_agent_fg = 60 \<and>
   score_article_fg ex_no_agent_fg \<le> 60"
proof -
  have h1: "count_in agent_keywords_aa (content_aa ex_no_agent) = 0" by code_simp
  have h2: "count_in agentic_keywords_at (combined_of ex_no_agent) = 0" by code_simp
  have h3: "\<not> any_in high_value_fg (combined_of ex_no_agent)" by code_simp
  have h4: "\<not> any_in high_value_fg (combined_of ex_no_agent_fg)" by code_simp
  have v1: "score_article_at ex_no_agent = 65" by code_simp
  have v2: "score_article_fg ex_no_agent_fg = 60" by code_simp
  show ?thesis
    using h1 h2 h3 h4 v1 v2
      agent_gate [of ex_no_agent ex_fromisoformat ex_now "[ex_no_agent]"]
      agent_gate [of ex_no_agent_fg ex_fromisoformat ex_now "[ex_no_agent_fg]"]
    by blast
qed

subsection \<open>C2: the score is an integer between 0 and 100\<close>

text \<open>
  C2. The claim: for every article the scorer returns an integer in the range 0 to 100.
  The scorers of \<open>analyze_today.py\<close> and \<open>filter_and_generate.py\<close> return
  \<open>max(0, min(100, score))\<close> of an integer (lemmas \<open>score_article_at_range\<close> and
  \<open>score_article_fg_range\<close>), and the value that \<open>analyze_articles.py\<close> returns lies
  in the range (lemma \<open>score_article_aa_range\<close>). But \<open>analyze_articles.py\<close>, whose
  \<open>score_article\<close> is declared to return \<open>Tuple[int, str]\<close>, multiplies the score of an
  arXiv paper without production keyword by the float \<open>0.3\<close> and returns the product:
  for the article with title \<open>agent\<close> and link \<open>https://arxiv.org/abs/1\<close> the returned
  score is the float 4.5, which is not an integer.
\<close>

theorem score_article_aa_float:
  "score_article_aa ex_penalty =
     (PFloat (9 / 2), ''agent keywords (1); arXiv penalty (research paper)'') \<and>
   \<not> is_int (fst (score_article_aa ex_penalty))"
  by code_simp

subsection \<open>C3: articles without a parseable date\<close>

text \<open>
  C3. The claim: an article whose \<open>published\<close> field is absent, empty or not parseable is
  retained by the recency filter. \<open>fetch_articles\<close> does retain an entry without a date,
  with \<open>published\<close> set to \<open>Unknown\<close> (lemma \<open>fetch_loop_keeps_undated\<close>). But
  \<open>is_recent\<close> of \<open>analyze_articles.py\<close> answers \<open>False\<close> whenever the field does
  not parse, so \<open>main\<close> drops every such article before it is scored: it is in no Selection,
  whatever its score.
\<close>

theorem undated_article_dropped:
  "fromisoformat (replace_Z (dict_get (published a) [])) = None \<Longrightarrow>
   a \<notin> aa_article ` set (main_aa fromisoformat now articles)"
proof
  assume none: "fromisoformat (replace_Z (dict_get (published a) [])) = None"
  assume "a \<in> aa_article ` set (main_aa fromisoformat now articles)"
  then obtain x where x: "x \<in> set (main_aa fromisoformat now articles)" and a: "a = aa_article x"
    by blast
  from main_aa_member(2) [OF x] a
  have "is_recent fromisoformat now (dict_get (published a) []) 48"
    by simp
  with is_recent_unparsable [of fromisoformat "dict_get (published a) []" now 48] none
  show False by simp
qed

theorem undated_article_dropped_witness:
  "ex_fromisoformat (replace_Z (dict_get (published ex_undated) [])) = None \<and>
   ex_undated \<notin> aa_article ` set (main_aa ex_fromisoformat ex_now [ex_undated])"
proof -
  have h: "ex_fromisoformat (replace_Z (dict_get (published ex_undated) [])) = None"
    by code_simp
  show ?thesis
    using h undated_article_dropped [of ex_fromisoformat ex_undated ex_now "[ex_undated]"]
    by simp
qed

subsection \<open>C4: the cap on arXiv papers\<close>

text \<open>
  C4. The claim: at most three arXiv papers are in a Selection, however many score above
  the threshold. \<open>analyze_today.py\<close> and \<open>filter_and_generate.py\<close> look for
  \<open>arxiv.org\<close> in the lower-cased URL when they score an article, and in the URL as it
  is written when they count the arXiv papers of the Selection. Five papers with the URLs
  \<open>https://ARXIV.ORG/abs/1\<close> to \<open>https://ARXIV.ORG/abs/5\<close> are scored as arXiv papers
  (85 and 65 points, without the 10 points of the other sources) and all five are selected,
  by both programs.
\<close>

theorem preprint_cap_case:
  "filter (\<lambda>a. py_in ''arxiv.org'' (lower (dict_get (url a) []))) ex_upper_pool = ex_upper_pool \<and>
   length ex_upper_pool = 5 \<and>
   score_article_at (ex_upper_paper 1) = 85 \<and>
   map at_article (main_at ex_upper_pool) = ex_upper_pool \<and>
   score_article_fg (ex_upper_paper 1) = 65 \<and>
   map fg_article (main_fg ex_upper_pool) = ex_upper_pool"
  by code_simp

subsection \<open>C5: the size of the Selection\<close>

text \<open>
  C5. The claim: every Selection has at most \<open>max_selected\<close> articles, a fixed maximum
  between 10 and 15. \<open>analyze_articles.py\<close> has no maximum, only the limit on arXiv papers:
  from sixteen copies of a recent article of score 70 that is no arXiv paper it selects all
  sixteen.
\<close>

theorem max_selected_counterexample:
  "\<not> length (main_aa ex_fromisoformat ex_now (replicate 16 ex_dated)) \<le> 15"
proof -
  have "is_recent ex_fromisoformat ex_now (dict_get (published ex_dated) []) 48"
    by code_simp
  moreover have "60 \<le> num_val (fst (score_article_aa ex_dated))"
    by code_simp
  moreover have "\<not> is_arxiv_aa ex_dated"
    by code_simp
  ultimately have "16 \<le> length (main_aa ex_fromisoformat ex_now (replicate 16 ex_dated))"
    using main_aa_keeps [where f = ex_fromisoformat and now = ex_now and arts = "replicate 16 ex_dated"]
    by simp
  then show ?thesis by simp
qed

text \<open>
  C5, amended. The Selection of \<open>analyze_today.py\<close> has at most 12 articles and that of
  \<open>filter_and_generate.py\<close> at most 15; their loops select nothing more once that count is
  reached, and no Selection is padded: it has no more articles than scored 60 or more.
  \<open>analyze_articles.py\<close> has no maximum: every recent article of score 60 or more
  that is no arXiv paper is in its Selection.
\<close>

theorem selection_size:
  "length (main_at arts) \<le> 12 \<and>
   length (main_fg arts) \<le> 15 \<and>
   (12 \<le> length sel \<longrightarrow> select_loop_at xs sel n = sel) \<and>
   (15 \<le> length sel' \<longrightarrow> fst (select_loop_fg ys m sel' n') = sel') \<and>
   length (main_at arts) \<le> length (filter (\<lambda>a. 60 \<le> score_article_at a) arts) \<and>
   length (main_fg arts) \<le> length (filter (\<lambda>a. 60 \<le> score_article_fg a) arts) \<and>
   (a \<in> set arts \<and> is_recent f now (dict_get (published a) []) 48 \<and>
    60 \<le> num_val (fst (score_article_aa a)) \<and> \<not> is_arxiv_aa a \<longrightarrow>
      a \<in> aa_article ` set (main_aa f now arts)) \<and>
   length (filter (\<lambda>a. \<not> is_arxiv_aa a)
             (filter (\<lambda>a. 60 \<le> num_val (fst (score_article_aa a)))
                (filter (\<lambda>a. is_recent f now (dict_get (published a) []) 48) arts)))
     \<le> length (main_aa f now arts)"
proof -
  have "length (main_at arts) \<le> 12"
    using select_loop_at_length [of "[]" "sort_reverse at_score (score_loop_at arts)" 0]
    by (simp add: main_at_def Let_def)
  moreover have "length (main_fg arts) \<le> 15"
    using select_loop_fg_length
      [of "[]" "sort_reverse relevance_score (score_loop_fg arts)" Map.empty 0]
    by (simp add: main_fg_def Let_def)
  ultimately show ?thesis
    using select_loop_at_stop select_loop_fg_stop main_at_length main_fg_length
      main_aa_selects main_aa_keeps
    by blast
qed

theorem selection_size_witness:
  "12 \<le> length (replicate 12 (ex_item_at ex_blog)) \<and>
   select_loop_at [ex_item_at ex_blog] (replicate 12 (ex_item_at ex_blog)) 0 =
     replicate 12 (ex_item_at ex_blog) \<and>
   15 \<le> length (replicate 15 (ex_item_fg ex_blog)) \<and>
   fst (select_loop_fg [ex_item_fg ex_blog] Map.empty (replicate 15 (ex_item_fg ex_blog)) 0) =
     replicate 15 (ex_item_fg ex_blog) \<and>
   ex_dated \<in> set [ex_dated] \<and>
   is_recent ex_fromisoformat ex_now (dict_get (published ex_dated) []) 48 \<and>
   60 \<le> num_val (fst (score_article_aa ex_dated)) \<and>
   \<not> is_arxiv_aa ex_dated \<and>
   ex_dated \<in> aa_article ` set (main_aa ex_fromisoformat ex_now [ex_dated])"
proof -
  have h1: "is_recent ex_fromisoformat ex_now (dict_get (published ex_dated) []) 48"
    by code_simp
  have h2: "60 \<le> num_val (fst (score_article_aa ex_dated))"
    by code_simp
  have h3: "\<not> is_arxiv_aa ex_dated"
    by code_simp
  show ?thesis
    using selection_size
      [where sel = "replicate 12 (ex_item_at ex_blog)" and xs = "[ex_item_at ex_blog]" and n = 0
         and sel' = "replicate 15 (ex_item_fg ex_blog)" and ys = "[ex_item_fg ex_blog]"
         and m = Map.empty and n' = 0 and a = ex_dated and arts = "[ex_dated]"
         and f = ex_fromisoformat and now = ex_now]
    by (simp add: h1 h2 h3)
qed

subsection \<open>C6: the order of the Selection\<close>

text \<open>
  C6. Every Selection is in descending order of score; selected articles of equal score are
  in the order of the input; and each selection loop keeps the order of the list it walks.
\<close>

theorem selection_sorted:
  "sorted_wrt (\<lambda>x y. num_val (aa_score x) \<ge> num_val (aa_score y)) (main_aa f now arts) \<and>
   subseq (map aa_article (filter (\<lambda>x. num_val (aa_score x) = r) (main_aa f now arts))) arts \<and>
   subseq (fst (limit_loop_aa xs Map.empty 0 [])) xs \<and>
   sorted_wrt (\<lambda>x y. at_score x \<ge> at_score y) (main_at arts) \<and>
   subseq (map at_article (filter (\<lambda>x. at_score x = k) (main_at arts))) arts \<and>
   subseq (select_loop_at ys [] 0) ys \<and>
   sorted_wrt (\<lambda>x y. relevance_score x \<ge> relevance_score y) (main_fg arts) \<and>
   subseq (map fg_article (filter (\<lambda>x. relevance_score x = k) (main_fg arts))) arts \<and>
   subseq (fst (select_loop_fg zs Map.empty [] 0)) zs"
proof -
  have "sorted_wrt (\<lambda>x y. num_val (aa_score x) \<ge> num_val (aa_score y)) (main_aa f now arts)"
    using main_aa_subseq sort_reverse_sorted by (rule sorted_wrt_subseq)
  moreover have "sorted_wrt (\<lambda>x y. at_score x \<ge> at_score y) (main_at arts)"
    using main_at_subseq sort_reverse_sorted by (rule sorted_wrt_subseq)
  moreover have "sorted_wrt (\<lambda>x y. relevance_score x \<ge> relevance_score y) (main_fg arts)"
    using main_fg_subseq sort_reverse_sorted by (rule sorted_wrt_subseq)
  moreover have "subseq (fst (limit_loop_aa xs Map.empty 0 [])) xs"
    using limit_loop_aa_append [of xs Map.empty 0 "[]"] by auto
  moreover have "subseq (select_loop_at ys [] 0) ys"
    using select_loop_at_append [of ys "[]" 0] by auto
  moreover have "subseq (fst (select_loop_fg zs Map.empty [] 0)) zs"
    using select_loop_fg_append [of zs Map.empty "[]" 0] by auto
  ultimately show ?thesis
    using main_aa_ties main_at_ties main_fg_ties by blast
qed

subsection \<open>C7: arXiv papers and the category Frameworks and Tools\<close>

text \<open>
  C7. The claim: the categorizer never returns \<open>Frameworks & Tools\<close> for an arXiv paper.
  The categorizer of \<open>analyze_today.py\<close> does not look at the URL: the arXiv paper with
  title \<open>a framework\<close> is categorized \<open>Frameworks & Tools\<close>.
\<close>

theorem preprint_tool_counterexample:
  "py_in ''arxiv.org'' (dict_get (url ex_paper) []) \<and>
   categorize_article_at ex_paper = ''Frameworks & Tools''"
  by code_simp

text \<open>
  C7, amended. The categorizer of \<open>analyze_articles.py\<close> never returns
  \<open>Frameworks & Tools\<close> for an arXiv paper: when the paper matches no production indicator
  it gets the category of the later rules (\<open>Developer Resources\<close>, \<open>Trends & Analysis\<close> or
  the default \<open>Research & Breakthroughs\<close>). The categorizer of \<open>analyze_today.py\<close>
  does not depend on the URL of the article.
\<close>

theorem preprint_not_tool:
  "(is_arxiv_aa a \<longrightarrow> categorize_article_aa a s \<noteq> ''Frameworks & Tools'') \<and>
   (is_arxiv_aa a \<and> \<not> any_in production_indicators_aa (content_aa a) \<longrightarrow>
      categorize_article_aa a s =
        (if any_in resource_indicators_aa (content_aa a) then ''Developer Resources''
         else if any_in analysis_indicators_aa (content_aa a) then ''Trends & Analysis''
         else ''Research & Breakthroughs'')) \<and>
   categorize_article_at (a\<lparr>url := u, link := l\<rparr>) = categorize_article_at a"
  using categorize_article_aa_preprint categorize_article_aa_preprint_later
    categorize_article_at_url
  by blast

theorem preprint_not_tool_witness:
  "is_arxiv_aa ex_paper \<and>
   any_in framework_indicators_aa (content_aa ex_paper) \<and>
   \<not> any_in production_indicators_aa (content_aa ex_paper) \<and>
   categorize_article_aa ex_paper (PInt 90) \<noteq> ''Frameworks & Tools'' \<and>
   categorize_article_aa ex_paper (PInt 90) = ''Research & Breakthroughs''"
proof -
  have h1: "is_arxiv_aa ex_paper" by code_simp
  have h2: "\<not> any_in production_indicators_aa (content_aa ex_paper)" by code_simp
  have h3: "any_in framework_indicators_aa (content_aa ex_paper)" by code_simp
  have h4: "\<not> any_in resource_indicators_aa (content_aa ex_paper)" by code_simp
  have h5: "\<not> any_in analysis_indicators_aa (content_aa ex_paper)" by code_simp
  show ?thesis
    using h1 h2 h3 h4 h5 preprint_not_tool [of ex_paper "PInt 90"]
    by simp
qed

subsection \<open>C8: the priority of the categories\<close>

text \<open>
  C8. Each categorizer returns one of the five categories and tests its groups of indicators
  in the order production, frameworks and tools, developer resources, trends and analysis,
  with \<open>Research & Breakthroughs\<close> as the default: the category is that of the first group
  with a match. So an article that matches a production indicator and a framework indicator
  is categorized \<open>Production Use Cases\<close>. (In \<open>analyze_articles.py\<close> the second group
  matches only when the article is no arXiv paper.)
\<close>

theorem category_priority:
  "(categorize_article_aa a s \<in> set category_order \<and>
    (any_in production_indicators_aa (content_aa a) \<longrightarrow>
       categorize_article_aa a s = ''Production Use Cases'') \<and>
    (\<not> any_in production_indicators_aa (content_aa a) \<and>
     any_in framework_indicators_aa (content_aa a) \<and> \<not> is_arxiv_aa a \<longrightarrow>
       categorize_article_aa a s = ''Frameworks & Tools'') \<and>
    (\<not> any_in production_indicators_aa (content_aa a) \<and>
     \<not> (any_in framework_indicators_aa (content_aa a) \<and> \<not> is_arxiv_aa a) \<and>
     any_in resource_indicators_aa (content_aa a) \<longrightarrow>
       categorize_article_aa a s = ''Developer Resources'') \<and>
    (\<not> any_in production_indicators_aa (content_aa a) \<and>
     \<not> (any_in framework_indicators_aa (content_aa a) \<and> \<not> is_arxiv_aa a) \<and>
     \<not> any_in resource_indicators_aa (content_aa a) \<and>
     any_in analysis_indicators_aa (content_aa a) \<longrightarrow>
       categorize_article_aa a s = ''Trends & Analysis'') \<and>
    (\<not> any_in production_indicators_aa (content_aa a) \<and>
     \<not> (any_in framework_indicators_aa (content_aa a) \<and> \<not> is_arxiv_aa a) \<and>
     \<not> any_in resource_indicators_aa (content_aa a) \<and>
     \<not> any_in analysis_indicators_aa (content_aa a) \<longrightarrow>
       categorize_article_aa a s = ''Research & Breakthroughs'')) \<and>
   (categorize_article_at a \<in> set category_order \<and>
    (any_in production_terms_at (combined_of a) \<longrightarrow>
       categorize_article_at a = ''Production Use Cases'') \<and>
    (\<not> any_in production_terms_at (combined_of a) \<and>
     any_in framework_terms_at (combined_of a) \<longrightarrow>
       categorize_article_at a = ''Frameworks & Tools'') \<and>
    (\<not> any_in production_terms_at (combined_of a) \<and>
     \<not> any_in framework_terms_at (combined_of a) \<and>
     any_in resource_terms_at (combined_of a) \<longrightarrow>
       categorize_article_at a = ''Developer Resources'') \<and>
    (\<not> any_in production_terms_at (combined_of a) \<and>
     \<not> any_in framework_terms_at (combined_of a) \<and>
     \<not> any_in resource_terms_at (combined_of a) \<and>
     any_in analysis_terms_at (combined_of a) \<longrightarrow>
       categorize_article_at a = ''Trends & Analysis'') \<and>
    (\<not> any_in production_terms_at (combined_of a) \<and>
     \<not> any_in framework_terms_at (combined_of a) \<and>
     \<not> any_in resource_terms_at (combined_of a) \<and>
     \<not> any_in analysis_terms_at (combined_of a) \<longrightarrow>
       categorize_article_at a = ''Research & Breakthroughs'')) \<and>
   (categorize_article_fg a \<in> set category_order \<and>
    (any_in production_terms_fg (combined_of a) \<longrightarrow>
       categorize_article_fg a = ''Production Use Cases'') \<and>
    (\<not> any_in production_terms_fg (combined_of a) \<and>
     any_in framework_terms_fg (combined_of a) \<longrightarrow>
       categorize_article_fg a = ''Frameworks & Tools'') \<and>
    (\<not> any_in production_terms_fg (combined_of a) \<and>
     \<not> any_in framework_terms_fg (combined_of a) \<and>
     any_in resource_terms_fg (combined_of a) \<longrightarrow>
       categorize_article_fg a = ''Developer Resources'') \<and>
    (\<not> any_in production_terms_fg (combined_of a) \<and>
     \<not> any_in framework_terms_fg (combined_of a) \<and>
     \<not> any_in resource_terms_fg (combined_of a) \<and>
     any_in analysis_terms_fg (combined_of a) \<longrightarrow>
       categorize_article_fg a = ''Trends & Analysis'') \<and>
    (\<not> any_in production_terms_fg (combined_of a) \<and>
     \<not> any_in framework_terms_fg (combined_of a) \<and>
     \<not> any_in resource_terms_fg (combined_of a) \<and>
     \<not> any_in analysis_terms_fg (combined_of a) \<longrightarrow>
       categorize_article_fg a = ''Research & Breakthroughs''))"
  by (rule conjI [OF categorize_article_aa_cascade
        conjI [OF categorize_article_at_cascade categorize_article_fg_cascade]])

theorem category_priority_witness:
  "any_in production_indicators_aa (content_aa ex_blog) \<and>
   any_in framework_indicators_aa (content_aa ex_blog) \<and>
   categorize_article_aa ex_blog (PInt 90) = ''Production Use Cases'' \<and>
   any_in production_terms_at (combined_of ex_blog) \<and>
   any_in framework_terms_at (combined_of ex_blog) \<and>
   categorize_article_at ex_blog = ''Production Use Cases'' \<and>
   any_in production_terms_fg (combined_of ex_blog) \<and>
   any_in framework_terms_fg (combined_of ex_blog) \<and>
   categorize_article_fg ex_blog = ''Production Use Cases'' \<and>
   \<not> any_in production_terms_at (combined_of ex_paper) \<and>
   any_in framework_terms_at (combined_of ex_paper) \<and>
   categorize_article_at ex_paper = ''Frameworks & Tools''"
proof -
  have h1: "any_in production_indicators_aa (content_aa ex_blog)" by code_simp
  have h2: "any_in framework_indicators_aa (content_aa ex_blog)" by code_simp
  have h3: "any_in production_terms_at (combined_of ex_blog)" by code_simp
  have h4: "any_in framework_terms_at (combined_of ex_blog)" by code_simp
  have h5: "any_in production_terms_fg (combined_of ex_blog)" by code_simp
  have h6: "any_in framework_terms_fg (combined_of ex_blog)" by code_simp
  have h7: "\<not> any_in production_terms_at (combined_of ex_paper)" by code_simp
  have h8: "any_in framework_terms_at (combined_of ex_paper)" by code_simp
  show ?thesis
    using category_priority [of ex_blog "PInt 90"] category_priority [of ex_paper "PInt 90"]
    by (simp add: h1 h2 h3 h4 h5 h6 h7 h8)
qed

subsection \<open>C9: validation of the configuration\<close>

text \<open>
  C9. The claim: a negative \<open>lookback_hours\<close> is rejected before any processing.
  \<open>collect_articles.py\<close> passes the number of hours on as \<open>argparse\<close> read it: with
  \<open>--hours -5\<close> at 01:00 the cutoff is 06:00 of the same day, the feed is fetched, its
  entry of 03:00 is left out and its entry of 07:00 is collected.
\<close>

theorem negative_hours_counterexample:
  "main_collect ex_env ex_now (Some (- 5)) (Config (Some [''https://example.com/feed''])) =
     Inr \<lparr>c_cutoff_time = 1793685600000000, c_hours = - 5, c_total_articles = 1,
          c_articles =
            [make_article ex_feed ''https://example.com/feed'' ex_entry
               ''2026-11-03T07:00:00+00:00'' True]\<rparr>"
  by code_simp

text \<open>
  C9, amended. The program does not validate its configuration. Given a feed configuration
  file that holds a JSON object and an output file that can be written, \<open>collect_articles\<close>
  accepts every number of hours, negative ones too, for which the cutoff (now minus the
  hours) is a date that \<open>datetime\<close> can represent: it fetches the feeds with that cutoff
  and collects as many articles as the feeds have entries without a date or with a date
  not before the cutoff.
\<close>

theorem no_config_validation:
  "\<bar>hours div 24\<bar> \<le> 999999999 \<and>
   - 62135596800000000 \<le> now - hours * 3600000000 \<and>
   now - hours * 3600000000 \<le> 253402300799999999 \<and>
   output_writable E \<longrightarrow>
     (\<exists>c. collect_articles E now hours (Config feeds) = Inr c \<and> c_hours c = hours \<and>
          c_cutoff_time c = now - hours * 3600000000 \<and>
          c_total_articles c = length (c_articles c) \<and>
          c_articles c =
            sort_reverse
              (\<lambda>x. if dict_get (published x) [] \<noteq> ''Unknown''
                   then dict_get (published x) [] else [])
              (concat (map (\<lambda>feed_url. fetch_articles E feed_url (now - hours * 3600000000))
                         (dict_get feeds []))) \<and>
          length (c_articles c) =
            length (filter (kept E (now - hours * 3600000000))
                      (concat (map (\<lambda>feed_url. entries (feedparser_parse E feed_url))
                                 (dict_get feeds [])))))"
  using collect_articles_accepts [of hours now E feeds]
  by blast

theorem no_config_validation_witness:
  "\<bar>(- 5 :: int) div 24\<bar> \<le> 999999999 \<and>
   - 62135596800000000 \<le> ex_now - (- 5) * 3600000000 \<and>
   ex_now - (- 5) * 3600000000 \<le> 253402300799999999 \<and>
   output_writable ex_env \<and>
   \<not> kept ex_env (ex_now - (- 5) * 3600000000) ex_entry_early \<and>
   kept ex_env (ex_now - (- 5) * 3600000000) ex_entry \<and>
   (\<exists>c. collect_articles ex_env ex_now (- 5) (Config (Some [''https://example.com/feed''])) = Inr c \<and>
        c_hours c = - 5 \<and> c_cutoff_time c = ex_now - (- 5) * 3600000000 \<and>
        length (c_articles c) = 1)"
proof -
  have w: "output_writable ex_env" by code_simp
  have k0: "\<not> kept ex_env (ex_now - (- 5) * 3600000000) ex_entry_early" by code_simp
  have k1: "kept ex_env (ex_now - (- 5) * 3600000000) ex_entry" by code_simp
  have n: "length (filter (kept ex_env (ex_now - (- 5) * 3600000000))
             (concat (map (\<lambda>feed_url. entries (feedparser_parse ex_env feed_url))
                        (dict_get (Some [''https://example.com/feed'']) [])))) = 1"
    by code_simp
  have r: "\<bar>(- 5 :: int) div 24\<bar> \<le> 999999999 \<and>
      - 62135596800000000 \<le> ex_now - (- 5) * 3600000000 \<and>
      ex_now - (- 5) * 3600000000 \<le> 253402300799999999"
    by (simp add: ex_now_def)
  from no_config_validation
    [where hours = "- 5" and now = ex_now and E = ex_env
       and feeds = "Some [''https://example.com/feed'']"] r w
  obtain c where c: "collect_articles ex_env ex_now (- 5) (Config (Some [''https://example.com/feed''])) = Inr c"
    "c_hours c = - 5" "c_cutoff_time c = ex_now - (- 5) * 3600000000"
    "length (c_articles c) =
       length (filter (kept ex_env (ex_now - (- 5) * 3600000000))
          (concat (map (\<lambda>feed_url. entries (feedparser_parse ex_env feed_url))
                     (dict_get (Some [''https://example.com/feed'']) []))))"
    by blast
  from c n have "length (c_articles c) = 1" by simp
  with c r w k0 k1 show ?thesis by blast
qed

subsection \<open>C10: the fields that scoring and categorization read\<close>

text \<open>
  C10. Two articles with the same values under the keys \<open>title\<close>, \<open>summary\<close>,
  \<open>description\<close>, \<open>link\<close> and \<open>url\<close> get the same score and the same category from each
  of the three programs, whatever their other keys hold; and the category that
  \<open>analyze_articles.py\<close> gives does not depend on the score that is passed to it.
\<close>

theorem score_text_only:
  "title a = title b \<Longrightarrow> summary a = summary b \<Longrightarrow> description a = description b \<Longrightarrow>
   link a = link b \<Longrightarrow> url a = url b \<Longrightarrow>
   score_article_aa a = score_article_aa b \<and>
   categorize_article_aa a s = categorize_article_aa b s' \<and>
   score_article_at a = score_article_at b \<and>
   categorize_article_at a = categorize_article_at b \<and>
   score_article_fg a = score_article_fg b \<and>
   categorize_article_fg a = categorize_article_fg b"
  using text_fields_aa(1) [where a = a and b = b]
    text_fields_aa(2) [where a = a and b = b and s = s and s' = s']
    text_fields_at [where a = a and b = b] text_fields_fg [where a = a and b = b]
  by simp

theorem score_text_only_witness:
  "title ex_blog = title ex_blog_other \<and> summary ex_blog = summary ex_blog_other \<and>
   description ex_blog = description ex_blog_other \<and> link ex_blog = link ex_blog_other \<and>
   url ex_blog = url ex_blog_other \<and>
   published ex_blog \<noteq> published ex_blog_other \<and> source ex_blog \<noteq> source ex_blog_other \<and>
   author ex_blog \<noteq> author ex_blog_other \<and> tags ex_blog \<noteq> tags ex_blog_other \<and>
   score_article_aa ex_blog = score_article_aa ex_blog_other \<and>
   categorize_article_aa ex_blog (PInt 0) = categorize_article_aa ex_blog_other (PInt 100) \<and>
   score_article_at ex_blog = score_article_at ex_blog_other \<and>
   categorize_article_at ex_blog = categorize_article_at ex_blog_other \<and>
   score_article_fg ex_blog = score_article_fg ex_blog_other \<and>
   categorize_article_fg ex_blog = categorize_article_fg ex_blog_other"
proof -
  have h: "title ex_blog = title ex_blog_other" "summary ex_blog = summary ex_blog_other"
    "description ex_blog = description ex_blog_other" "link ex_blog = link ex_blog_other"
    "url ex_blog = url ex_blog_other"
    by (simp_all add: ex_blog_other_def)
  have d: "published ex_blog \<noteq> published ex_blog_other"
    "source ex_blog \<noteq> source ex_blog_other"
    "author ex_blog \<noteq> author ex_blog_other" "tags ex_blog \<noteq> tags ex_blog_other"
    by (simp_all add: ex_blog_other_def ex_blog_def empty_article_def)
  show ?thesis
    using h d score_text_only [OF h, of "PInt 0" "PInt 100"] by simp
qed

end
